theory Spec2Isabelle
  imports Main "HOL-Library.Sublist" "HOL-Library.Char_ord" "HOL-Library.List_Lexorder"
    "HOL-Library.Product_Lexorder"
begin

section \<open>Data of the file explorer (FileExplorer.jsx)\<close>

text \<open>
  An entry of a GitHub contents listing, with the attributes the components read.
  The attribute \<open>size\<close> of the source is \<open>size_bytes\<close> here; \<open>download_url\<close> is
  \<open>None\<close> where the listing gives \<open>null\<close>.
\<close>

record raw_item =
  name :: string
  path :: string
  type :: string
  size_bytes :: nat
  download_url :: "string option"

text \<open>
  A processed item \<open>{...item, fullPath, isCodeFile, isTestFile, children}\<close>.
  \<open>children\<close> is \<open>None\<close> for JavaScript's \<open>null\<close> and \<open>Some cs\<close> for an array.
  \<open>oid\<close> is the identity of the JavaScript object: every object literal evaluated by
  the program takes the next unused number, and two nodes are the same object exactly
  when their \<open>oid\<close> agree.
\<close>

datatype tree_node = Node (oid: nat) (item: raw_item) (fullPath: string)
  (isCodeFile: bool) (isTestFile: bool) (children: "tree_node list option")

definition codeExtensions :: "string list" where
  "codeExtensions = [''.js'', ''.jsx'', ''.ts'', ''.tsx'', ''.py'', ''.java'', ''.cpp'',
     ''.c'', ''.cs'', ''.php'', ''.rb'', ''.go'']"

definition testExtensions :: "string list" where
  "testExtensions = [''.test.js'', ''.spec.js'', ''.test.ts'', ''.spec.ts'', ''.test.py'']"

text \<open>\<open>s.endsWith(ext)\<close>\<close>

definition endsWith :: "string \<Rightarrow> string \<Rightarrow> bool" where
  "endsWith s ext = suffix ext s"

subsection \<open>processFileTree\<close>

text \<open>The body of the \<open>for\<close> loop: one processed item, allocated at address \<open>a\<close>.\<close>

definition processItem :: "string \<Rightarrow> nat \<Rightarrow> raw_item \<Rightarrow> tree_node" where
  "processItem basePath a it = Node a it
     (if basePath \<noteq> [] then basePath @ ''/'' @ name it else name it)
     (list_ex (\<lambda>ext. endsWith (name it) ext) codeExtensions)
     (list_ex (\<lambda>ext. endsWith (name it) ext) testExtensions)
     (if type it = ''dir'' then Some [] else None)"

text \<open>
  The comparator given to \<open>sort\<close>. \<open>String.prototype.localeCompare\<close> belongs to the
  host, not to the repository: it is the parameter \<open>localeCompare\<close>.
\<close>

definition compareItems :: "(string \<Rightarrow> string \<Rightarrow> int) \<Rightarrow> tree_node \<Rightarrow> tree_node \<Rightarrow> int" where
  "compareItems localeCompare a b =
     (if type (item a) = type (item b) then localeCompare (name (item a)) (name (item b))
      else if type (item a) = ''dir'' then - 1 else 1)"

text \<open>
  \<open>Array.prototype.sort\<close> is a stable sort: an element goes before the first one it
  does not have to follow, so elements that compare equal keep their order.
\<close>

fun insert_sorted :: "('a \<Rightarrow> 'a \<Rightarrow> int) \<Rightarrow> 'a \<Rightarrow> 'a list \<Rightarrow> 'a list" where
  "insert_sorted cmp x [] = [x]"
| "insert_sorted cmp x (y # ys) =
     (if cmp x y \<le> 0 then x # y # ys else y # insert_sorted cmp x ys)"

definition array_sort :: "('a \<Rightarrow> 'a \<Rightarrow> int) \<Rightarrow> 'a list \<Rightarrow> 'a list" where
  "array_sort cmp xs = foldr (insert_sorted cmp) xs []"

text \<open>\<open>h\<close> is the first unused object address; item \<open>i\<close> of the listing is allocated at \<open>h + i\<close>.\<close>

definition processFileTree ::
  "(string \<Rightarrow> string \<Rightarrow> int) \<Rightarrow> nat \<Rightarrow> raw_item list \<Rightarrow> string \<Rightarrow> tree_node list" where
  "processFileTree localeCompare h items basePath =
     array_sort (compareItems localeCompare)
       (map (\<lambda>(i, it). processItem basePath (h + i) it) (enumerate 0 items))"

subsection \<open>updateTree (inside fetchFolderContents)\<close>

text \<open>
  \<open>items.map(item => ...)\<close> with the three branches of the source, in their order.
  \<open>item.children\<close> is truthy for every array, the empty one too. The number passed
  along is the next unused object address; the function returns it updated.
\<close>

function updateTree ::
  "string \<Rightarrow> tree_node list \<Rightarrow> nat \<Rightarrow> tree_node list \<Rightarrow> tree_node list \<times> nat" where
  "updateTree target processedChildren h [] = ([], h)"
| "updateTree target processedChildren h (Node a it fp ic itf None # items) =
     (if path it = target then
        (let (rest, h') = updateTree target processedChildren (Suc h) items
         in (Node h it fp ic itf (Some processedChildren) # rest, h'))
      else
        (let (rest, h') = updateTree target processedChildren h items
         in (Node a it fp ic itf None # rest, h')))"
| "updateTree target processedChildren h (Node a it fp ic itf (Some cs) # items) =
     (if path it = target then
        (let (rest, h') = updateTree target processedChildren (Suc h) items
         in (Node h it fp ic itf (Some processedChildren) # rest, h'))
      else
        (let (cs', h1) = updateTree target processedChildren h cs;
             (rest, h2) = updateTree target processedChildren (Suc h1) items
         in (Node h1 it fp ic itf (Some cs') # rest, h2)))"
  by pat_completeness auto
termination
  by (relation "measure (\<lambda>(target, processedChildren, h, items). size_list size items)") auto

subsection \<open>State of the component, and the listing service\<close>

record repo =
  full_name :: string
  repo_name :: string
  default_branch :: string

text \<open>The properties \<open>githubToken\<close> and \<open>selectedRepo\<close> that \<open>App\<close> passes to a component.\<close>

record props =
  githubToken :: string
  selectedRepo :: repo

text \<open>
  The \<open>useState\<close> cells of \<open>FileExplorer\<close>, the URLs it has requested with
  \<open>axios.get\<close> (oldest first) and the next unused object address.
\<close>

record explorer_state =
  fileTree :: "tree_node list"
  selectedFiles :: "tree_node list"
  expandedFolders :: "string set"
  error :: string
  requests :: "string list"
  next_oid :: nat

text \<open>
  What \<open>await axios.get(url, ...)\<close> gives when \<open>n\<close> requests went before it: the
  promise rejects (transport error or a status outside 2xx), \<open>Inl\<close> of the message, or it
  resolves and \<open>response.data\<close> is the listing.
\<close>

type_synonym contents_api = "nat \<Rightarrow> string \<Rightarrow> string + raw_item list"

subsection \<open>fetchFolderContents, toggleFolder, toggleFileSelection, the click handler\<close>

text \<open>
  \<open>fetchFolderContents\<close> awaits the listing and then calls
  \<open>setFileTree(updateTree(fileTree))\<close>, where \<open>fileTree\<close> is the tree of the render in
  which the folder was clicked. \<open>fetchFolderContents_settle\<close> is the part after the
  \<open>await\<close>: \<open>captured\<close> is that tree, \<open>answer\<close> what the request gave, and \<open>st\<close> the
  state when the answer arrives. A rejected request is written to the console and changes
  nothing.
\<close>

definition fetchFolderContents_settle ::
  "(string \<Rightarrow> string \<Rightarrow> int) \<Rightarrow> tree_node \<Rightarrow> tree_node list \<Rightarrow> string + raw_item list
     \<Rightarrow> explorer_state \<Rightarrow> explorer_state" where
  "fetchFolderContents_settle localeCompare folder captured answer st =
     (case answer of
        Inl err \<Rightarrow> st
      | Inr data \<Rightarrow>
          (let processedChildren =
                 processFileTree localeCompare (next_oid st) data (fullPath folder);
               (tree, h) = updateTree (path (item folder)) processedChildren
                             (next_oid st + length data) captured
           in st\<lparr>fileTree := tree, next_oid := h\<rparr>))"

text \<open>
  The whole function, when the answer arrives before anything else happens: the request
  is made, and the answer is settled on the tree of the state in which the click was made.
\<close>

definition fetchFolderContents ::
  "(string \<Rightarrow> string \<Rightarrow> int) \<Rightarrow> contents_api \<Rightarrow> props \<Rightarrow> tree_node \<Rightarrow> explorer_state
     \<Rightarrow> explorer_state" where
  "fetchFolderContents localeCompare api p folder st =
     (let url = ''https://api.github.com/repos/'' @ full_name (selectedRepo p) @ ''/contents/''
                  @ path (item folder)
      in fetchFolderContents_settle localeCompare folder (fileTree st)
           (api (length (requests st)) url) (st\<lparr>requests := requests st @ [url]\<rparr>))"

text \<open>\<open>!folder.children || folder.children.length === 0\<close>\<close>

definition no_children :: "tree_node \<Rightarrow> bool" where
  "no_children folder = (case children folder of None \<Rightarrow> True | Some cs \<Rightarrow> length cs = 0)"

definition toggleFolder ::
  "(string \<Rightarrow> string \<Rightarrow> int) \<Rightarrow> contents_api \<Rightarrow> props \<Rightarrow> tree_node \<Rightarrow> explorer_state
     \<Rightarrow> explorer_state" where
  "toggleFolder localeCompare api p folder st =
     (if path (item folder) \<in> expandedFolders st then
        st\<lparr>expandedFolders := expandedFolders st - {path (item folder)}\<rparr>
      else
        (let st1 = (if no_children folder then fetchFolderContents localeCompare api p folder st
                    else st)
         in st1\<lparr>expandedFolders := insert (path (item folder)) (expandedFolders st)\<rparr>))"

text \<open>\<open>findIndex\<close>: the first index whose element satisfies the predicate, or \<open>-1\<close>.\<close>

fun findIndex :: "('a \<Rightarrow> bool) \<Rightarrow> 'a list \<Rightarrow> int" where
  "findIndex P [] = - 1"
| "findIndex P (x # xs) =
     (if P x then 0 else (let i = findIndex P xs in if i = - 1 then - 1 else i + 1))"

text \<open>\<open>xs.splice(index, 1)\<close> for an index that is in range.\<close>

definition splice1 :: "int \<Rightarrow> 'a list \<Rightarrow> 'a list" where
  "splice1 index xs = take (nat index) xs @ drop (Suc (nat index)) xs"

definition toggleFileSelection :: "tree_node \<Rightarrow> explorer_state \<Rightarrow> explorer_state" where
  "toggleFileSelection file st =
     (let newSelected = selectedFiles st;
          index = findIndex (\<lambda>f. path (item f) = path (item file)) newSelected
      in if index > - 1 then st\<lparr>selectedFiles := splice1 index newSelected\<rparr>
         else st\<lparr>selectedFiles := newSelected @ [file]\<rparr>)"

text \<open>The \<open>onClick\<close> handler of a row in \<open>renderFileItem\<close>.\<close>

definition onClick ::
  "(string \<Rightarrow> string \<Rightarrow> int) \<Rightarrow> contents_api \<Rightarrow> props \<Rightarrow> tree_node \<Rightarrow> explorer_state
     \<Rightarrow> explorer_state" where
  "onClick localeCompare api p it st =
     (if type (item it) = ''dir'' then toggleFolder localeCompare api p it st
      else if isCodeFile it then toggleFileSelection it st
      else st)"

subsection \<open>Notions used to state the properties of the explorer\<close>

text \<open>
  A comparison function is consistent when "not after" is total and transitive; the
  language standard asks this of \<open>localeCompare\<close>.
\<close>

definition consistent_collation :: "(string \<Rightarrow> string \<Rightarrow> int) \<Rightarrow> bool" where
  "consistent_collation lc \<longleftrightarrow>
     (\<forall>a b. lc a b \<le> 0 \<or> lc b a \<le> 0) \<and> (\<forall>a b c. lc a b \<le> 0 \<longrightarrow> lc b c \<le> 0 \<longrightarrow> lc a c \<le> 0)"

text \<open>Comparison by a key: negative, zero or positive as the keys compare.\<close>

definition compare_by :: "('a \<Rightarrow> 'k::linorder) \<Rightarrow> 'a \<Rightarrow> 'a \<Rightarrow> int" where
  "compare_by key a b = (if key a < key b then - 1 else if key a = key b then 0 else 1)"

text \<open>
  Two comparison functions a host may have. The first orders strings by their code units,
  which is the case-sensitive lexicographic order (\<open>B\<close> before \<open>a\<close>). The second compares
  letters without their case first, and only then puts the lower-case letter first, as
  the default collation of the browsers does on ASCII names (\<open>a\<close> before \<open>B\<close>).
\<close>

definition codeunit_compare :: "string \<Rightarrow> string \<Rightarrow> int" where
  "codeunit_compare = compare_by (\<lambda>s. s)"

definition is_upper :: "char \<Rightarrow> bool" where
  "is_upper c \<longleftrightarrow> CHR ''A'' \<le> c \<and> c \<le> CHR ''Z''"

definition to_lower :: "char \<Rightarrow> char" where
  "to_lower c = (if is_upper c then char_of (of_char c + (32::nat)) else c)"

definition alphabetic_compare :: "string \<Rightarrow> string \<Rightarrow> int" where
  "alphabetic_compare = compare_by (\<lambda>s. (map to_lower s, map is_upper s))"

text \<open>The order the comparator of \<open>processFileTree\<close> stands for on directories and files.\<close>

definition sibling_order :: "(string \<Rightarrow> string \<Rightarrow> int) \<Rightarrow> tree_node \<Rightarrow> tree_node \<Rightarrow> bool" where
  "sibling_order lc a b \<longleftrightarrow>
     (type (item a) = ''dir'' \<and> type (item b) = ''file'') \<or>
     (type (item a) = type (item b) \<and> lc (name (item a)) (name (item b)) \<le> 0)"

text \<open>A node without its identities, for comparing contents.\<close>

fun erase :: "tree_node \<Rightarrow> tree_node" where
  "erase (Node a it fp ic itf ch) = Node 0 it fp ic itf (map_option (map erase) ch)"

text \<open>The paths of a node and of all nodes below it.\<close>

fun paths_of :: "tree_node \<Rightarrow> string list" where
  "paths_of (Node a it fp ic itf ch) =
     path it # (case ch of None \<Rightarrow> [] | Some cs \<Rightarrow> concat (map paths_of cs))"

text \<open>
  How \<open>updateTree\<close> treats one node \<open>n\<close>, with result \<open>n'\<close>, when the next unused address
  is at least \<open>h\<close>: a node of the target path becomes a new object with the new children;
  another node without a children array is the same object; another node with a
  children array becomes a new object with the same attributes, whose children are
  treated the same way.
\<close>

fun updated_as :: "string \<Rightarrow> tree_node list \<Rightarrow> nat \<Rightarrow> tree_node \<Rightarrow> tree_node \<Rightarrow> bool" where
  "updated_as target pc h (Node a it fp ic itf ch) n' =
     (if path it = target then
        h \<le> oid n' \<and> n' = Node (oid n') it fp ic itf (Some pc)
      else case ch of
        None \<Rightarrow> n' = Node a it fp ic itf None
      | Some cs \<Rightarrow>
          h \<le> oid n' \<and> item n' = it \<and> fullPath n' = fp \<and> isCodeFile n' = ic \<and>
          isTestFile n' = itf \<and>
          (case children n' of None \<Rightarrow> False
           | Some cs' \<Rightarrow> list_all2 (updated_as target pc h) cs cs'))"

text \<open>The URL that \<open>fetchFolderContents\<close> requests for a folder.\<close>

definition folder_url :: "props \<Rightarrow> tree_node \<Rightarrow> string" where
  "folder_url p folder = ''https://api.github.com/repos/'' @ full_name (selectedRepo p)
     @ ''/contents/'' @ path (item folder)"

text \<open>
  A click on a folder starts a fetch: the folder is not expanded, and it has no children
  array or an empty one.
\<close>

definition fetch_needed :: "tree_node \<Rightarrow> explorer_state \<Rightarrow> bool" where
  "fetch_needed folder st \<longleftrightarrow>
     path (item folder) \<notin> expandedFolders st \<and>
     (children folder = None \<or> children folder = Some [])"

text \<open>The rows whose click reaches \<open>toggleFileSelection\<close>, and the paths selected.\<close>

definition selectable :: "tree_node \<Rightarrow> bool" where
  "selectable it \<longleftrightarrow> type (item it) \<noteq> ''dir'' \<and> isCodeFile it"

definition selected_paths :: "explorer_state \<Rightarrow> string set" where
  "selected_paths st = (\<lambda>f. path (item f)) ` set (selectedFiles st)"

section \<open>Promises and responses\<close>

text \<open>A thrown value or the reason of a rejected promise: an \<open>Error\<close> with its message.\<close>

datatype js_error = JsError (message: string)

text \<open>
  What \<open>await fetch(...)\<close> gives: the promise rejects, or it resolves with a response,
  of which the code reads \<open>ok\<close>, \<open>status\<close> and the body (\<open>text()\<close> or \<open>json()\<close>).
  Reading the body may reject as well (\<open>Inl\<close>); \<open>Inr\<close> carries what was read. A JSON
  body is modelled as an object with the properties the code reads, \<open>None\<close> for a
  property that is \<open>undefined\<close> or \<open>null\<close>.
\<close>

datatype 'a fetch_result = Rejected js_error | Response (ok: bool) (http_status: nat) (body: "js_error + 'a")

text \<open>A string test of the form \<open>if (s)\<close>: \<open>null\<close>, \<open>undefined\<close> and the empty string are falsy.\<close>

definition truthy :: "string option \<Rightarrow> bool" where
  "truthy v = (case v of None \<Rightarrow> False | Some s \<Rightarrow> s \<noteq> [])"

text \<open>A number inside a template literal.\<close>

fun string_of_nat :: "nat \<Rightarrow> string" where
  "string_of_nat n = (if n < 10 then [char_of (48 + n)]
     else string_of_nat (n div 10) @ [char_of (48 + n mod 10)])"

definition newline :: char where
  "newline = CHR 0x0A"

definition dquote :: char where
  "dquote = CHR 0x22"

section \<open>The generation pipeline (TestCaseGenerator.jsx)\<close>

record testcase =
  tc_input :: string
  tc_output :: string

record summary =
  fileName :: string
  filePath :: string
  testCaseCount :: nat
  status :: string
  testCases :: "testcase list"

text \<open>The JSON of a file from the contents API, and of the generation backend.\<close>

datatype contents_json = ContentsJson (json_type: "string option") (json_content: "string option")

datatype generate_json = GenerateJson (test_cases: "testcase list option")

text \<open>
  The host and the remote services, as the component sees them. The first argument of a
  service is the number of requests made before. \<open>atob\<close> throws on text that is not
  base64.
\<close>

record generator_env =
  fetch_download :: "nat \<Rightarrow> string \<Rightarrow> string fetch_result"
  fetch_contents :: "nat \<Rightarrow> string \<Rightarrow> string \<Rightarrow> contents_json fetch_result"
  fetch_generate :: "nat \<Rightarrow> string \<Rightarrow> generate_json fetch_result"
  atob :: "string \<Rightarrow> js_error + string"

datatype generator_call =
    GetDownload string
  | GetContentsApi string string
  | PostGenerate string

text \<open>
  \<open>selectedRepo\<close> and \<open>githubToken\<close> are free identifiers in \<open>fetchFileContent\<close>: the
  component takes neither as a property and declares neither. A free identifier is
  looked up in the global scope, \<open>None\<close> when nothing is bound to it, and reading it then
  throws a ReferenceError.
\<close>

record generator_scope =
  scope_selectedRepo :: "repo option"
  scope_githubToken :: "string option"

text \<open>The scope of the application: nothing in the repository binds the two names.\<close>

definition TestCaseGenerator_scope :: generator_scope where
  "TestCaseGenerator_scope = \<lparr>scope_selectedRepo = None, scope_githubToken = None\<rparr>"

subsection \<open>fetchFileContent\<close>

text \<open>The branch of the \<open>try\<close> block for a file with a \<open>download_url\<close>.\<close>

definition fetch_via_download_url ::
  "generator_env \<Rightarrow> string \<Rightarrow> generator_call list \<Rightarrow> (js_error + string) \<times> generator_call list" where
  "fetch_via_download_url env url calls =
     (let calls1 = calls @ [GetDownload url]
      in case fetch_download env (length calls) url of
           Rejected e \<Rightarrow> (Inl e, calls1)
         | Response rok rstatus rbody \<Rightarrow>
             if \<not> rok then
               (Inl (JsError (''Failed to fetch via download_url: '' @ string_of_nat rstatus)), calls1)
             else (rbody, calls1))"

text \<open>The rest of the \<open>try\<close> block: the contents API with the token.\<close>

definition fetch_via_api ::
  "generator_scope \<Rightarrow> generator_env \<Rightarrow> tree_node \<Rightarrow> generator_call list
     \<Rightarrow> (js_error + string) \<times> generator_call list" where
  "fetch_via_api sc env file calls =
     (case scope_selectedRepo sc of
        None \<Rightarrow> (Inl (JsError ''selectedRepo is not defined''), calls)
      | Some r \<Rightarrow>
          (let apiUrl = ''https://api.github.com/repos/'' @ full_name r @ ''/contents/''
                          @ path (item file)
           in case scope_githubToken sc of
                None \<Rightarrow> (Inl (JsError ''githubToken is not defined''), calls)
              | Some token \<Rightarrow>
                  (let calls1 = calls @ [GetContentsApi apiUrl (''token '' @ token)]
                   in case fetch_contents env (length calls) apiUrl (''token '' @ token) of
                        Rejected e \<Rightarrow> (Inl e, calls1)
                      | Response rok rstatus rbody \<Rightarrow>
                          if \<not> rok then
                            (Inl (JsError (''GitHub API error: '' @ string_of_nat rstatus)), calls1)
                          else
                            (case rbody of
                               Inl e \<Rightarrow> (Inl e, calls1)
                             | Inr data \<Rightarrow>
                                 if json_type data = Some ''file'' \<and> truthy (json_content data) then
                                   (case json_content data of
                                      Some c \<Rightarrow> (atob env (filter (\<lambda>ch. ch \<noteq> newline) c), calls1)
                                    | None \<Rightarrow>
                                        (Inl (JsError ''Invalid file data received from GitHub API''),
                                         calls1))
                                 else
                                   (Inl (JsError ''Invalid file data received from GitHub API''),
                                    calls1)))))"

text \<open>The text returned by the \<open>catch\<close> block.\<close>

definition mockContent :: "string \<Rightarrow> js_error \<Rightarrow> string" where
  "mockContent fname err =
     ''// Mock content for '' @ fname @ '' (failed to fetch real content)'' @ [newline] @
     ''// Error: '' @ message err @ [newline] @
     ''function sampleFunction() {'' @ [newline] @
     ''  return '' @ [dquote] @ ''Hello World'' @ [dquote] @ '';'' @ [newline] @ ''}''"

text \<open>
  The whole function. Its value is what \<open>await fetchFileContent(file)\<close> gives the caller:
  \<open>Inl\<close> if the promise rejects, \<open>Inr\<close> of the text otherwise.
\<close>

definition fetchFileContent ::
  "generator_scope \<Rightarrow> generator_env \<Rightarrow> tree_node \<Rightarrow> generator_call list
     \<Rightarrow> (js_error + string) \<times> generator_call list" where
  "fetchFileContent sc env file calls =
     (case (if truthy (download_url (item file))
            then (case download_url (item file) of
                    Some url \<Rightarrow> fetch_via_download_url env url calls
                  | None \<Rightarrow> fetch_via_api sc env file calls)
            else fetch_via_api sc env file calls) of
        (Inl err, calls1) \<Rightarrow> (Inr (mockContent (name (item file)) err), calls1)
      | (Inr content, calls1) \<Rightarrow> (Inr content, calls1))"

subsection \<open>generateTestCasesForFile\<close>

definition mockTestCases :: "string \<Rightarrow> testcase list" where
  "mockTestCases fname =
     [\<lparr>tc_input = ''// Function from '' @ fname,
       tc_output = [dquote] @ ''Mock Result 1'' @ [dquote]\<rparr>,
      \<lparr>tc_input = ''// Test case 2 for '' @ fname,
       tc_output = [dquote] @ ''Mock Result 2'' @ [dquote]\<rparr>,
      \<lparr>tc_input = ''// Test case 3 for '' @ fname,
       tc_output = [dquote] @ ''Mock Result 3'' @ [dquote]\<rparr>,
      \<lparr>tc_input = ''// Test case 4 for '' @ fname,
       tc_output = [dquote] @ ''Mock Result 4'' @ [dquote]\<rparr>]"

text \<open>The \<open>try\<close> block: \<open>Inl\<close> is what it throws, \<open>Inr\<close> is \<open>data.test_cases || []\<close>.\<close>

definition generate_request :: "generator_env \<Rightarrow> string \<Rightarrow> nat \<Rightarrow> js_error + testcase list" where
  "generate_request env code n =
     (case fetch_generate env n code of
        Rejected e \<Rightarrow> Inl e
      | Response rok rstatus rbody \<Rightarrow>
          if \<not> rok then Inl (JsError (''HTTP error! status: '' @ string_of_nat rstatus))
          else (case rbody of
                  Inl e \<Rightarrow> Inl e
                | Inr data \<Rightarrow> Inr (case test_cases data of Some tcs \<Rightarrow> tcs | None \<Rightarrow> [])))"

definition generateTestCasesForFile ::
  "generator_env \<Rightarrow> string \<Rightarrow> string \<Rightarrow> generator_call list
     \<Rightarrow> (js_error + testcase list) \<times> generator_call list" where
  "generateTestCasesForFile env code fname calls =
     (case generate_request env code (length calls) of
        Inl err \<Rightarrow> (Inr (mockTestCases fname), calls @ [PostGenerate code])
      | Inr tcs \<Rightarrow> (Inr tcs, calls @ [PostGenerate code]))"

subsection \<open>startGeneration\<close>

text \<open>
  The \<open>useState\<close> cells of the component, the argument of the last call of
  \<open>onTestCasesGenerated\<close> (\<open>None\<close> before the first), and the requests made so far.
\<close>

record generator_state =
  currentFileIndex :: nat
  testCaseSummaries :: "summary list"
  isGenerating :: bool
  generation_error :: string
  generatedTestCases :: "string \<rightharpoonup> testcase list"
  delivered :: "summary list option"
  call_log :: "generator_call list"

text \<open>The \<open>for\<close> loop from index \<open>i\<close> on; \<open>Inl\<close> when an awaited call rejects.\<close>

fun generation_loop ::
  "generator_scope \<Rightarrow> generator_env \<Rightarrow> tree_node list \<Rightarrow> nat \<Rightarrow> summary list \<Rightarrow> generator_state
     \<Rightarrow> (js_error + summary list) \<times> generator_state" where
  "generation_loop sc env [] i summaries st = (Inr summaries, st)"
| "generation_loop sc env (file # files) i summaries st =
     (let st1 = st\<lparr>currentFileIndex := i\<rparr>
      in case fetchFileContent sc env file (call_log st1) of
           (Inl e, c1) \<Rightarrow> (Inl e, st1\<lparr>call_log := c1\<rparr>)
         | (Inr fileContent, c1) \<Rightarrow>
             (case generateTestCasesForFile env fileContent (name (item file)) c1 of
                (Inl e, c2) \<Rightarrow> (Inl e, st1\<lparr>call_log := c2\<rparr>)
              | (Inr tcs, c2) \<Rightarrow>
                  (let summary = \<lparr>fileName = name (item file), filePath = path (item file),
                                    testCaseCount = length tcs, status = ''completed'',
                                    testCases = tcs\<rparr>;
                       summaries1 = summaries @ [summary]
                   in generation_loop sc env files (Suc i) summaries1
                        (st1\<lparr>call_log := c2, testCaseSummaries := summaries1,
                             generatedTestCases :=
                               (generatedTestCases st1)(path (item file) \<mapsto> tcs)\<rparr>))))"

definition startGeneration ::
  "generator_scope \<Rightarrow> generator_env \<Rightarrow> tree_node list \<Rightarrow> generator_state \<Rightarrow> generator_state" where
  "startGeneration sc env files st =
     (let st0 = st\<lparr>isGenerating := True, generation_error := [], currentFileIndex := 0,
                   testCaseSummaries := [], generatedTestCases := Map.empty\<rparr>
      in case generation_loop sc env files 0 [] st0 of
           (Inr summaries, st1) \<Rightarrow> st1\<lparr>delivered := Some summaries, isGenerating := False\<rparr>
         | (Inl err, st1) \<Rightarrow>
             st1\<lparr>generation_error := ''Failed to generate test cases: '' @ message err,
                 isGenerating := False\<rparr>)"

text \<open>A call of the generation service fails: no response, a status outside 2xx, or a body that is not JSON.\<close>

definition generation_fails :: "generate_json fetch_result \<Rightarrow> bool" where
  "generation_fails r = (case r of Rejected e \<Rightarrow> True
                         | Response rok rstatus rbody \<Rightarrow> \<not> rok \<or> isl rbody)"

text \<open>A fetch of a file's text fails likewise.\<close>

definition download_fails :: "string fetch_result \<Rightarrow> bool" where
  "download_fails r = (case r of Rejected e \<Rightarrow> True
                       | Response rok rstatus rbody \<Rightarrow> \<not> rok \<or> isl rbody)"

section \<open>Publishing (TestCaseViewer.jsx)\<close>

text \<open>
  The JSON bodies the component reads: the reference of the default branch
  (\<open>object.sha\<close>; \<open>None\<close> when there is no \<open>object\<close>, so that reading \<open>sha\<close> throws a
  TypeError), the existing file (\<open>sha\<close>) and the error payload of a refused write
  (\<open>message\<close>).
\<close>

datatype ref_json = RefJson (object_sha: "string option")

datatype file_json = FileJson (file_sha: "string option")

datatype error_json = ErrorJson (error_message: "string option")

text \<open>The bodies the component sends. \<open>body_sha = None\<close>: the object has no property \<open>sha\<close>.\<close>

record create_ref_body =
  ref :: string
  sha :: string

record request_body =
  body_message :: string
  body_content :: string
  body_branch :: string
  body_sha :: "string option"

datatype viewer_call =
    GetRef string
  | PostRefs string create_ref_body
  | GetExisting string
  | PutContents string request_body

text \<open>
  The remote services and the host's base64 encoder
  \<open>btoa(unescape(encodeURIComponent(.)))\<close>, which throws (a URIError) on a text with a
  lone surrogate: \<open>Inl\<close> is what it throws.
\<close>

record viewer_env =
  fetch_ref :: "nat \<Rightarrow> string \<Rightarrow> ref_json fetch_result"
  fetch_create_ref :: "nat \<Rightarrow> string \<Rightarrow> create_ref_body \<Rightarrow> unit fetch_result"
  fetch_existing :: "nat \<Rightarrow> string \<Rightarrow> file_json fetch_result"
  fetch_put :: "nat \<Rightarrow> string \<Rightarrow> request_body \<Rightarrow> error_json fetch_result"
  btoa_utf8 :: "string \<Rightarrow> js_error + string"

text \<open>
  The \<open>useState\<close> cells of the component and the loading flag of \<open>App\<close>, the requests
  made so far, and the errors written with \<open>console.error\<close>.
\<close>

record viewer_state =
  pushStatus :: string
  pushMessage :: string
  fileName_input :: string
  commitMessage :: string
  branchName :: string
  isLoading :: bool
  viewer_calls :: "viewer_call list"
  console_errors :: "js_error list"

subsection \<open>createBranchIfNotExists\<close>

text \<open>The \<open>try\<close> block: what it throws, if anything, and the requests it made.\<close>

definition create_branch_try ::
  "viewer_env \<Rightarrow> props \<Rightarrow> viewer_state \<Rightarrow> (js_error + unit) \<times> viewer_call list" where
  "create_branch_try env p st =
     (let refUrl = ''https://api.github.com/repos/'' @ full_name (selectedRepo p)
                     @ ''/git/ref/heads/'' @ default_branch (selectedRepo p);
          calls1 = viewer_calls st @ [GetRef refUrl]
      in case fetch_ref env (length (viewer_calls st)) refUrl of
           Rejected e \<Rightarrow> (Inl e, calls1)
         | Response rok rstatus rbody \<Rightarrow>
             if \<not> rok then (Inl (JsError ''Failed to get default branch''), calls1)
             else
               (case rbody of
                  Inl e \<Rightarrow> (Inl e, calls1)
                | Inr (RefJson None) \<Rightarrow>
                    (Inl (JsError ''Cannot read properties of undefined''), calls1)
                | Inr (RefJson (Some tip)) \<Rightarrow>
                    (let refsUrl = ''https://api.github.com/repos/'' @ full_name (selectedRepo p)
                                     @ ''/git/refs'';
                         b = \<lparr>ref = ''refs/heads/'' @ branchName st, sha = tip\<rparr>;
                         calls2 = calls1 @ [PostRefs refsUrl b]
                     in case fetch_create_ref env (length calls1) refsUrl b of
                          Rejected e \<Rightarrow> (Inl e, calls2)
                        | Response cok cstatus cbody \<Rightarrow>
                            if \<not> cok \<and> cstatus \<noteq> 422
                            then (Inl (JsError ''Failed to create branch''), calls2)
                            else (Inr (), calls2))))"

text \<open>The function: its \<open>catch\<close> block writes the error to the console and returns.\<close>

definition createBranchIfNotExists ::
  "viewer_env \<Rightarrow> props \<Rightarrow> viewer_state \<Rightarrow> (js_error + unit) \<times> viewer_state" where
  "createBranchIfNotExists env p st =
     (case create_branch_try env p st of
        (Inl err, calls1) \<Rightarrow>
          (Inr (), st\<lparr>viewer_calls := calls1, console_errors := console_errors st @ [err]\<rparr>)
      | (Inr u, calls1) \<Rightarrow> (Inr (), st\<lparr>viewer_calls := calls1\<rparr>))"

subsection \<open>createOrUpdateFile\<close>

text \<open>The existence check: the value of \<open>existingFileSha\<close> after the first \<open>try\<close> block.\<close>

definition existingFileSha :: "file_json fetch_result \<Rightarrow> string option" where
  "existingFileSha r =
     (case r of
        Rejected e \<Rightarrow> None
      | Response rok rstatus rbody \<Rightarrow>
          if rok then (case rbody of Inl e \<Rightarrow> None | Inr data \<Rightarrow> file_sha data) else None)"

text \<open>
  The function. The encoding of the text stands between the existence check and the
  write, outside every \<open>try\<close> block: when it throws, the function rejects and no write
  is requested.
\<close>

definition createOrUpdateFile ::
  "viewer_env \<Rightarrow> props \<Rightarrow> string \<Rightarrow> viewer_state \<Rightarrow> (js_error + unit) \<times> viewer_state" where
  "createOrUpdateFile env p generatedCode st =
     (let checkUrl = ''https://api.github.com/repos/'' @ full_name (selectedRepo p)
                       @ ''/contents/'' @ fileName_input st @ ''?ref='' @ branchName st;
          calls1 = viewer_calls st @ [GetExisting checkUrl];
          existing = existingFileSha (fetch_existing env (length (viewer_calls st)) checkUrl)
      in case btoa_utf8 env generatedCode of
           Inl e \<Rightarrow> (Inl e, st\<lparr>viewer_calls := calls1\<rparr>)
         | Inr fileContent \<Rightarrow>
             (let requestBody = \<lparr>body_message = commitMessage st, body_content = fileContent,
                                 body_branch = branchName st, body_sha = None\<rparr>;
                  requestBody1 = (if truthy existing then requestBody\<lparr>body_sha := existing\<rparr>
                                  else requestBody);
                  putUrl = ''https://api.github.com/repos/'' @ full_name (selectedRepo p)
                             @ ''/contents/'' @ fileName_input st;
                  st2 = st\<lparr>viewer_calls := calls1 @ [PutContents putUrl requestBody1]\<rparr>
              in case fetch_put env (length calls1) putUrl requestBody1 of
                   Rejected e \<Rightarrow> (Inl e, st2)
                 | Response rok rstatus rbody \<Rightarrow>
                     if \<not> rok then
                       (case rbody of
                          Inl e \<Rightarrow> (Inl e, st2)
                        | Inr errorData \<Rightarrow>
                            (Inl (JsError (if truthy (error_message errorData)
                                           then (case error_message errorData of Some m \<Rightarrow> m
                                                 | None \<Rightarrow> ''Failed to create/update file'')
                                           else ''Failed to create/update file'')), st2))
                     else (Inr (), st2)))"

subsection \<open>pushToGitHub\<close>

definition pushToGitHub :: "viewer_env \<Rightarrow> props \<Rightarrow> string \<Rightarrow> viewer_state \<Rightarrow> viewer_state" where
  "pushToGitHub env p generatedCode st =
     (let st0 = st\<lparr>pushStatus := ''pushing'', pushMessage := [], isLoading := True\<rparr>;
          failed = (\<lambda>err s. s\<lparr>pushStatus := ''error'',
                               pushMessage := ''Failed to push to GitHub: '' @ message err,
                               console_errors := console_errors s @ [err],
                               isLoading := False\<rparr>)
      in case createBranchIfNotExists env p st0 of
           (Inl err, st1) \<Rightarrow> failed err st1
         | (Inr u, st1) \<Rightarrow>
             (case createOrUpdateFile env p generatedCode st1 of
                (Inl err, st2) \<Rightarrow> failed err st2
              | (Inr v, st2) \<Rightarrow>
                  st2\<lparr>pushStatus := ''success'',
                      pushMessage := ''Successfully pushed test cases to ''
                        @ repo_name (selectedRepo p) @ ''/'' @ branchName st2,
                      isLoading := False\<rparr>))"

text \<open>
  The existence check found a file with revision marker \<open>m\<close>: the response is a success
  and its JSON carries a non-empty \<open>sha\<close>, as the contents API answers for an existing file.
\<close>

definition found_existing :: "file_json fetch_result \<Rightarrow> string \<Rightarrow> bool" where
  "found_existing r m =
     (case r of Rejected e \<Rightarrow> False
      | Response rok rstatus rbody \<Rightarrow> rok \<and> rbody = Inr (FileJson (Some m)) \<and> m \<noteq> [])"

text \<open>
  The summary that the loop builds for a file when the generation service fails: the four
  mock test cases, named after the file.
\<close>

definition mock_summary :: "tree_node \<Rightarrow> summary" where
  "mock_summary f = \<lparr>fileName = name (item f), filePath = path (item f), testCaseCount = 4,
     status = ''completed'', testCases = mockTestCases (name (item f))\<rparr>"

text \<open>
  The URLs of the four requests of the publishing workflow, the body of the last
  request of a log when that is the write of the file, and the state in which
  \<open>pushToGitHub\<close> starts its work.
\<close>

definition ref_url :: "props \<Rightarrow> string" where
  "ref_url p = ''https://api.github.com/repos/'' @ full_name (selectedRepo p)
     @ ''/git/ref/heads/'' @ default_branch (selectedRepo p)"

definition refs_url :: "props \<Rightarrow> string" where
  "refs_url p = ''https://api.github.com/repos/'' @ full_name (selectedRepo p) @ ''/git/refs''"

definition check_url :: "props \<Rightarrow> viewer_state \<Rightarrow> string" where
  "check_url p st = ''https://api.github.com/repos/'' @ full_name (selectedRepo p)
     @ ''/contents/'' @ fileName_input st @ ''?ref='' @ branchName st"

definition put_url :: "props \<Rightarrow> viewer_state \<Rightarrow> string" where
  "put_url p st = ''https://api.github.com/repos/'' @ full_name (selectedRepo p)
     @ ''/contents/'' @ fileName_input st"

definition sent_body :: "viewer_call list \<Rightarrow> request_body option" where
  "sent_body cs = (case rev cs of PutContents url b # earlier \<Rightarrow> Some b | _ \<Rightarrow> None)"

definition pushing :: "viewer_state \<Rightarrow> viewer_state" where
  "pushing st = st\<lparr>pushStatus := ''pushing'', pushMessage := [], isLoading := True\<rparr>"

section \<open>Concrete inputs\<close>

definition item_app_test :: raw_item where
  "item_app_test = \<lparr>name = ''app.test.js'', path = ''src/app.test.js'', type = ''file'',
     size_bytes = 10, download_url = None\<rparr>"

definition item_B :: raw_item where
  "item_B = \<lparr>name = ''B.js'', path = ''B.js'', type = ''file'', size_bytes = 1,
     download_url = None\<rparr>"

definition item_a :: raw_item where
  "item_a = \<lparr>name = ''a.js'', path = ''a.js'', type = ''file'', size_bytes = 1,
     download_url = None\<rparr>"

definition item_src :: raw_item where
  "item_src = \<lparr>name = ''src'', path = ''src'', type = ''dir'', size_bytes = 0,
     download_url = None\<rparr>"

definition item_docs :: raw_item where
  "item_docs = \<lparr>name = ''docs'', path = ''docs'', type = ''dir'', size_bytes = 0,
     download_url = None\<rparr>"

definition item_readme :: raw_item where
  "item_readme = \<lparr>name = ''README.md'', path = ''README.md'', type = ''file'',
     size_bytes = 120, download_url = None\<rparr>"

definition item_guide :: raw_item where
  "item_guide = \<lparr>name = ''guide.md'', path = ''docs/guide.md'', type = ''file'',
     size_bytes = 7, download_url = None\<rparr>"

text \<open>A tree of three siblings, the children fetched for \<open>docs\<close>, and a start state.\<close>

definition node_docs :: tree_node where
  "node_docs = Node 0 item_docs ''docs'' False False (Some [])"

definition node_readme :: tree_node where
  "node_readme = Node 1 item_readme ''README.md'' False False None"

definition node_app_test :: tree_node where
  "node_app_test = Node 3 item_app_test ''src/app.test.js'' True True None"

definition node_src :: tree_node where
  "node_src = Node 2 item_src ''src'' False False (Some [node_app_test])"

definition docs_children :: "tree_node list" where
  "docs_children = [Node 4 item_guide ''docs/guide.md'' False False None]"

definition example_tree :: "tree_node list" where
  "example_tree = [node_docs, node_readme, node_src]"

text \<open>
  A listing service that answers every request with an empty listing, and the state
  after the first click on \<open>docs\<close> with it.
\<close>

definition example_props :: props where
  "example_props = \<lparr>githubToken = ''t0'', selectedRepo =
     \<lparr>full_name = ''octo/demo'', repo_name = ''demo'', default_branch = ''main''\<rparr>\<rparr>"

definition empty_listing_api :: contents_api where
  "empty_listing_api n url = Inr []"

definition explorer_start :: explorer_state where
  "explorer_start = \<lparr>fileTree = [node_docs], selectedFiles = [], expandedFolders = {},
     error = [], requests = [], next_oid = 1\<rparr>"

definition explorer_expanded :: explorer_state where
  "explorer_expanded =
     toggleFolder codeunit_compare empty_listing_api example_props node_docs explorer_start"

text \<open>
  Two selected files with a direct URL; services that all fail, a download service that
  returns an empty file and one that returns a line of code; a start state.
\<close>

definition node_a_js :: tree_node where
  "node_a_js = Node 0 \<lparr>name = ''a.js'', path = ''src/a.js'', type = ''file'', size_bytes = 1,
     download_url = Some ''https://raw.test/a.js''\<rparr> ''src/a.js'' True False None"

definition node_b_py :: tree_node where
  "node_b_py = Node 1 \<lparr>name = ''b.py'', path = ''src/b.py'', type = ''file'', size_bytes = 1,
     download_url = Some ''https://raw.test/b.py''\<rparr> ''src/b.py'' True False None"

definition failing_env :: generator_env where
  "failing_env = \<lparr>fetch_download = (\<lambda>n url. Rejected (JsError ''Failed to fetch'')),
     fetch_contents = (\<lambda>n url auth. Rejected (JsError ''Failed to fetch'')),
     fetch_generate = (\<lambda>n code. Rejected (JsError ''Failed to fetch'')),
     atob = (\<lambda>s. Inr s)\<rparr>"

definition empty_file_env :: generator_env where
  "empty_file_env = failing_env\<lparr>fetch_download := (\<lambda>n url. Response True 200 (Inr []))\<rparr>"

definition source_env :: generator_env where
  "source_env = failing_env\<lparr>fetch_download := (\<lambda>n url. Response True 200 (Inr ''let x = 1;''))\<rparr>"

definition generator_start :: generator_state where
  "generator_start = \<lparr>currentFileIndex = 0, testCaseSummaries = [], isGenerating = False,
     generation_error = [], generatedTestCases = Map.empty, delivered = None, call_log = []\<rparr>"

text \<open>
  The start state of the viewer; services for a repository where the branch and the file
  exist already, and for one where the file does not exist yet.
\<close>

definition viewer_start :: viewer_state where
  "viewer_start = \<lparr>pushStatus = [], pushMessage = [],
     fileName_input = ''generated-tests.test.js'',
     commitMessage = ''Add generated test cases by Workik AI'',
     branchName = ''workik-test-cases'', isLoading = False, viewer_calls = [],
     console_errors = []\<rparr>"

definition branch_exists_env :: viewer_env where
  "branch_exists_env = \<lparr>
     fetch_ref = (\<lambda>n url. Response True 200 (Inr (RefJson (Some ''abc123'')))),
     fetch_create_ref = (\<lambda>n url b. Response False 422 (Inr ())),
     fetch_existing = (\<lambda>n url. Response True 200 (Inr (FileJson (Some ''f00d'')))),
     fetch_put = (\<lambda>n url b. Response True 200 (Inr (ErrorJson None))),
     btoa_utf8 = (\<lambda>s. Inr s)\<rparr>"

definition new_file_env :: viewer_env where
  "new_file_env = branch_exists_env\<lparr>fetch_existing :=
     (\<lambda>n url. Response False 404 (Inr (FileJson None)))\<rparr>"

text \<open>Two folders that are both clicked before either listing arrives.\<close>

definition node_lib :: tree_node where
  "node_lib = Node 1 \<lparr>name = ''lib'', path = ''lib'', type = ''dir'', size_bytes = 0,
     download_url = None\<rparr> ''lib'' False False (Some [])"

definition two_folders :: explorer_state where
  "two_folders = \<lparr>fileTree = [node_docs, node_lib], selectedFiles = [], expandedFolders = {},
     error = [], requests = [], next_oid = 2\<rparr>"

text \<open>A download service that answers 404.\<close>

definition not_found_env :: generator_env where
  "not_found_env = failing_env\<lparr>fetch_download := (\<lambda>n url. Response False 404 (Inr []))\<rparr>"

text \<open>
  Services where the default branch cannot be read, where the creation of the branch is
  refused, and where the text cannot be encoded.
\<close>

definition no_default_branch_env :: viewer_env where
  "no_default_branch_env = branch_exists_env\<lparr>fetch_ref :=
     (\<lambda>n url. Response False 404 (Inr (RefJson None)))\<rparr>"

definition refused_creation_env :: viewer_env where
  "refused_creation_env = branch_exists_env\<lparr>fetch_create_ref :=
     (\<lambda>n url b. Response False 403 (Inr ()))\<rparr>"

definition malformed_text_env :: viewer_env where
  "malformed_text_env = branch_exists_env\<lparr>btoa_utf8 :=
     (\<lambda>s. Inl (JsError ''URI malformed''))\<rparr>"

text \<open>The order the specification states for siblings of one kind: by name, case-sensitively.\<close>

definition case_sensitive_order :: "tree_node \<Rightarrow> tree_node \<Rightarrow> bool" where
  "case_sensitive_order a b \<longleftrightarrow>
     (type (item a) = ''dir'' \<and> type (item b) = ''file'') \<or>
     (type (item a) = type (item b) \<and> name (item a) \<le> name (item b))"

section \<open>Properties of the file explorer\<close>

subsection \<open>Sorting\<close>

lemma set_insert_sorted: "set (insert_sorted cmp x xs) = insert x (set xs)"
  by (induction xs) auto

lemma set_array_sort: "set (array_sort cmp xs) = set xs"
  unfolding array_sort_def by (induction xs) (auto simp: set_insert_sorted)

lemma length_insert_sorted: "length (insert_sorted cmp x xs) = Suc (length xs)"
  by (induction xs) auto

lemma length_array_sort: "length (array_sort cmp xs) = length xs"
  unfolding array_sort_def by (induction xs) (auto simp: length_insert_sorted)

lemma sorted_insert_sorted:
  assumes tot: "\<And>a b. a \<in> S \<Longrightarrow> b \<in> S \<Longrightarrow> cmp a b \<le> 0 \<or> cmp b a \<le> 0"
    and tr: "\<And>a b c. a \<in> S \<Longrightarrow> b \<in> S \<Longrightarrow> c \<in> S \<Longrightarrow> cmp a b \<le> 0 \<Longrightarrow> cmp b c \<le> 0
               \<Longrightarrow> cmp a c \<le> 0"
    and "x \<in> S" "set xs \<subseteq> S" "sorted_wrt (\<lambda>a b. cmp a b \<le> 0) xs"
  shows "sorted_wrt (\<lambda>a b. cmp a b \<le> 0) (insert_sorted cmp x xs)"
  using assms(3-)
proof (induction xs)
  case Nil
  then show ?case by simp
next
  case (Cons y ys)
  show ?case
  proof (cases "cmp x y \<le> 0")
    case True
    have "\<forall>z\<in>set ys. cmp x z \<le> 0"
    proof
      fix z assume z: "z \<in> set ys"
      with Cons.prems have "cmp y z \<le> 0" by simp
      with True tr[of x y z] Cons.prems z show "cmp x z \<le> 0" by auto
    qed
    with True Cons.prems show ?thesis by simp
  next
    case False
    with tot[of x y] Cons.prems have yx: "cmp y x \<le> 0" by auto
    from Cons have "sorted_wrt (\<lambda>a b. cmp a b \<le> 0) (insert_sorted cmp x ys)" by simp
    with False yx Cons.prems show ?thesis by (auto simp: set_insert_sorted)
  qed
qed

lemma sorted_array_sort:
  assumes tot: "\<And>a b. a \<in> S \<Longrightarrow> b \<in> S \<Longrightarrow> cmp a b \<le> 0 \<or> cmp b a \<le> 0"
    and tr: "\<And>a b c. a \<in> S \<Longrightarrow> b \<in> S \<Longrightarrow> c \<in> S \<Longrightarrow> cmp a b \<le> 0 \<Longrightarrow> cmp b c \<le> 0
               \<Longrightarrow> cmp a c \<le> 0"
    and "set xs \<subseteq> S"
  shows "sorted_wrt (\<lambda>a b. cmp a b \<le> 0) (array_sort cmp xs)"
  using assms(3)
proof (induction xs)
  case Nil
  then show ?case by (simp add: array_sort_def)
next
  case (Cons x xs)
  have "array_sort cmp (x # xs) = insert_sorted cmp x (array_sort cmp xs)"
    by (simp add: array_sort_def)
  moreover have "sorted_wrt (\<lambda>a b. cmp a b \<le> 0) (insert_sorted cmp x (array_sort cmp xs))"
  proof (rule sorted_insert_sorted[where S=S])
    show "x \<in> S" using Cons.prems by simp
    show "set (array_sort cmp xs) \<subseteq> S" using Cons.prems by (simp add: set_array_sort)
    show "sorted_wrt (\<lambda>a b. cmp a b \<le> 0) (array_sort cmp xs)" using Cons by simp
  qed (use tot tr in blast)+
  ultimately show ?case by simp
qed

lemma set_processFileTree:
  "set (processFileTree lc h items bp) =
     (\<lambda>(i, it). processItem bp (h + i) it) ` set (enumerate 0 items)"
  by (simp add: processFileTree_def set_array_sort)

lemma processed_item_of:
  "n \<in> set (processFileTree lc h items bp) \<Longrightarrow> \<exists>a it. it \<in> set items \<and> n = processItem bp a it"
  by (force simp: set_processFileTree in_set_enumerate_eq)

subsection \<open>The extension tables\<close>

lemma endsWith_trans: "endsWith s t \<Longrightarrow> endsWith t c \<Longrightarrow> endsWith s c"
  unfolding endsWith_def by (rule suffix_order.trans)

lemma test_table: "\<forall>t\<in>set testExtensions. \<exists>c\<in>set codeExtensions. endsWith t c"
  by (simp add: testExtensions_def codeExtensions_def endsWith_def suffix_to_prefix)

lemma test_implies_code:
  "list_ex (endsWith n) testExtensions \<Longrightarrow> list_ex (endsWith n) codeExtensions"
  unfolding list_ex_iff using test_table endsWith_trans by blast

text \<open>
  C10. Every suffix of the table of test extensions ends with a suffix of the table of
  code extensions; so every node that \<open>processFileTree\<close> makes from a listing and marks as
  a test file is marked as a code file too, and, unless it is a directory, a click on it
  reaches \<open>toggleFileSelection\<close>: it can be selected for generation.
\<close>

theorem test_file_is_code_file:
  "(\<forall>t\<in>set testExtensions. \<exists>c\<in>set codeExtensions. endsWith t c) \<and>
   (\<forall>n\<in>set (processFileTree lc h items bp). isTestFile n \<longrightarrow>
      isCodeFile n \<and>
      (type (item n) \<noteq> ''dir'' \<longrightarrow> onClick lc api p n st = toggleFileSelection n st))"
proof (intro conjI ballI impI)
  fix t assume "t \<in> set testExtensions"
  then show "\<exists>c\<in>set codeExtensions. endsWith t c" using test_table by blast
next
  fix n assume n: "n \<in> set (processFileTree lc h items bp)" and t: "isTestFile n"
  from processed_item_of[OF n] obtain a it where "n = processItem bp a it" by blast
  with t show c: "isCodeFile n" by (simp add: processItem_def test_implies_code)
  assume "type (item n) \<noteq> ''dir''"
  with c show "onClick lc api p n st = toggleFileSelection n st" by (simp add: onClick_def)
qed

theorem test_file_is_code_file_witness:
  "isTestFile (hd (processFileTree codeunit_compare 0 [item_app_test] [])) \<and>
   isCodeFile (hd (processFileTree codeunit_compare 0 [item_app_test] []))"
proof -
  have eq: "processFileTree codeunit_compare 0 [item_app_test] []
              = [Node 0 item_app_test ''app.test.js'' True True None]"
    by (simp add: processFileTree_def array_sort_def processItem_def enumerate_eq_zip
        item_app_test_def testExtensions_def codeExtensions_def endsWith_def suffix_to_prefix)
  then have "hd (processFileTree codeunit_compare 0 [item_app_test] [])
               \<in> set (processFileTree codeunit_compare 0 [item_app_test] [])"
    by simp
  moreover have "isTestFile (hd (processFileTree codeunit_compare 0 [item_app_test] []))"
    by (simp add: eq)
  ultimately show ?thesis
    using test_file_is_code_file [of codeunit_compare 0 "[item_app_test]" "[]"] by blast
qed

subsection \<open>The order of siblings\<close>

lemma compare_by_le: "compare_by key a b \<le> 0 \<longleftrightarrow> key a \<le> key b"
  by (auto simp: compare_by_def)

lemma consistent_compare_by: "consistent_collation (compare_by key)"
  unfolding consistent_collation_def compare_by_le by (meson linear order_trans)

lemma compareItems_le:
  assumes "type (item a) = ''dir'' \<or> type (item a) = ''file''"
    and "type (item b) = ''dir'' \<or> type (item b) = ''file''"
  shows "compareItems lc a b \<le> 0 \<longleftrightarrow> sibling_order lc a b"
proof -
  obtain ta tb where ta: "type (item a) = ta" and tb: "type (item b) = tb" by simp
  from assms consider "ta = ''dir''" "tb = ''dir''" | "ta = ''dir''" "tb = ''file''"
    | "ta = ''file''" "tb = ''dir''" | "ta = ''file''" "tb = ''file''"
    unfolding ta tb by blast
  then show ?thesis
    unfolding compareItems_def sibling_order_def ta tb by cases simp_all
qed

lemma sibling_order_total:
  assumes "consistent_collation lc"
    and "type (item a) = ''dir'' \<or> type (item a) = ''file''"
    and "type (item b) = ''dir'' \<or> type (item b) = ''file''"
  shows "sibling_order lc a b \<or> sibling_order lc b a"
proof -
  from assms(1)
  have "lc (name (item a)) (name (item b)) \<le> 0 \<or> lc (name (item b)) (name (item a)) \<le> 0"
    by (simp add: consistent_collation_def)
  then show ?thesis using assms(2,3) by (auto simp: sibling_order_def)
qed

lemma sibling_order_trans:
  assumes "consistent_collation lc" "sibling_order lc a b" "sibling_order lc b c"
  shows "sibling_order lc a c"
proof -
  from assms(1) have tr: "\<And>x y z. lc x y \<le> 0 \<Longrightarrow> lc y z \<le> 0 \<Longrightarrow> lc x z \<le> 0"
    unfolding consistent_collation_def by blast
  show ?thesis
    using assms(2,3) tr[of "name (item a)" "name (item b)" "name (item c)"]
    by (auto simp: sibling_order_def)
qed

text \<open>
  C9, as the code has it. For a listing of directories and files, and a consistent
  \<open>localeCompare\<close> of the host, the siblings that \<open>processFileTree\<close> returns are in
  order: a directory before a file, and two nodes of one kind as \<open>localeCompare\<close> puts
  their names.
\<close>

theorem processFileTree_sibling_order:
  assumes lc: "consistent_collation localeCompare"
    and ty: "\<forall>it\<in>set items. type it = ''dir'' \<or> type it = ''file''"
  shows "sorted_wrt (sibling_order localeCompare)
           (processFileTree localeCompare h items basePath)"
proof -
  let ?S = "{n. type (item n) = ''dir'' \<or> type (item n) = ''file''}"
  let ?xs = "map (\<lambda>(i, it). processItem basePath (h + i) it) (enumerate 0 items)"
  have sub: "set ?xs \<subseteq> ?S"
    using ty by (auto simp: in_set_enumerate_eq processItem_def)
  have "sorted_wrt (\<lambda>a b. compareItems localeCompare a b \<le> 0)
          (array_sort (compareItems localeCompare) ?xs)"
  proof (rule sorted_array_sort[where S = ?S])
    fix a b assume "a \<in> ?S" "b \<in> ?S"
    then show "compareItems localeCompare a b \<le> 0 \<or> compareItems localeCompare b a \<le> 0"
      using sibling_order_total[OF lc, of a b] by (simp add: compareItems_le)
  next
    fix a b c assume "a \<in> ?S" "b \<in> ?S" "c \<in> ?S"
      "compareItems localeCompare a b \<le> 0" "compareItems localeCompare b c \<le> 0"
    then show "compareItems localeCompare a c \<le> 0"
      using sibling_order_trans[OF lc, of a b c] by (simp add: compareItems_le)
  qed (rule sub)
  then have "sorted_wrt (sibling_order localeCompare)
               (array_sort (compareItems localeCompare) ?xs)"
  proof (rule sorted_wrt_mono_rel[rotated])
    fix a b
    assume "a \<in> set (array_sort (compareItems localeCompare) ?xs)"
      "b \<in> set (array_sort (compareItems localeCompare) ?xs)"
      "compareItems localeCompare a b \<le> 0"
    then show "sibling_order localeCompare a b"
      using sub by (simp add: set_array_sort compareItems_le subset_iff)
  qed
  then show ?thesis by (simp add: processFileTree_def)
qed

theorem processFileTree_sibling_order_witness:
  "consistent_collation alphabetic_compare \<and>
   sorted_wrt (sibling_order alphabetic_compare)
     (processFileTree alphabetic_compare 0 [item_B, item_a, item_src] [])"
proof -
  have c: "consistent_collation alphabetic_compare"
    unfolding alphabetic_compare_def by (rule consistent_compare_by)
  have t: "\<forall>it\<in>set [item_B, item_a, item_src]. type it = ''dir'' \<or> type it = ''file''"
    by (simp add: item_B_def item_a_def item_src_def)
  from c processFileTree_sibling_order [OF c t, of 0 "[]"] show ?thesis by simp
qed

text \<open>
  The claim as the specification states it fails where the host's collation is not the
  order of the code units: with the alphabetic collation, \<open>a.js\<close> comes before \<open>B.js\<close>,
  and in the case-sensitive lexicographic order \<open>B.js\<close> is first.
\<close>

theorem processFileTree_case_sensitive_counterexample:
  "map name (map item (processFileTree alphabetic_compare 0 [item_B, item_a] []))
     = [''a.js'', ''B.js''] \<and>
   \<not> sorted_wrt case_sensitive_order (processFileTree alphabetic_compare 0 [item_B, item_a] [])"
  by code_simp

subsection \<open>Substituting fetched children\<close>

lemma updateTree_mono: "h \<le> snd (updateTree target pc h t)"
proof (induction target pc h t rule: updateTree.induct)
  case (1 target pc h)
  then show ?case by simp
next
  case (2 target pc h a it fp ic itf items)
  then show ?case by (cases "path it = target") (auto split: prod.splits)
next
  case (3 target pc h a it fp ic itf cs items)
  show ?case
  proof (cases "path it = target")
    case True
    with 3(1) show ?thesis by (auto split: prod.splits)
  next
    case False
    obtain cs' h1 where c: "updateTree target pc h cs = (cs', h1)"
      by (cases "updateTree target pc h cs")
    obtain rest h2 where r: "updateTree target pc (Suc h1) items = (rest, h2)"
      by (cases "updateTree target pc (Suc h1) items")
    from 3(2)[OF False] c have "h \<le> h1" by simp
    moreover from 3(3)[OF False c[symmetric] refl] r have "Suc h1 \<le> h2" by simp
    ultimately show ?thesis using False c r by simp
  qed
qed

lemma updated_as_mono:
  "updated_as target pc h' n n' \<Longrightarrow> h \<le> h' \<Longrightarrow> updated_as target pc h n n'"
proof (induction target pc h n n' rule: updated_as.induct)
  case (1 target pc h a it fp ic itf ch n')
  show ?case
  proof (cases "path it = target")
    case True
    with 1 show ?thesis by auto
  next
    case False
    show ?thesis
    proof (cases ch)
      case None
      with False 1 show ?thesis by auto
    next
      case (Some cs)
      with False 1(2) obtain cs' where cs': "children n' = Some cs'"
        "list_all2 (updated_as target pc h') cs cs'" by (auto split: option.splits)
      have "list_all2 (updated_as target pc h) cs cs'"
        using cs'(2)
      proof (rule list.rel_mono_strong)
        fix z yb assume "z \<in> set cs" "yb \<in> set cs'" "updated_as target pc h' z yb"
        then show "updated_as target pc h z yb"
          using 1(1)[OF False Some cs'(1)] 1(3) by blast
      qed
      with False Some cs' 1(2,3) show ?thesis by auto
    qed
  qed
qed

lemma list_all2_updated_as_mono:
  "list_all2 (updated_as target pc h') xs ys \<Longrightarrow> h \<le> h' \<Longrightarrow> list_all2 (updated_as target pc h) xs ys"
  by (erule list_all2_mono) (rule updated_as_mono)

lemma updateTree_updated_as:
  "list_all2 (updated_as target pc h) t (fst (updateTree target pc h t))"
proof (induction target pc h t rule: updateTree.induct)
  case (1 target pc h)
  then show ?case by simp
next
  case (2 target pc h a it fp ic itf items)
  show ?case
  proof (cases "path it = target")
    case True
    with 2(1) have "list_all2 (updated_as target pc h) items (fst (updateTree target pc (Suc h) items))"
      by (auto intro: list_all2_updated_as_mono)
    with True show ?thesis by (auto split: prod.splits)
  next
    case False
    with 2(2) show ?thesis by (auto split: prod.splits)
  qed
next
  case (3 target pc h a it fp ic itf cs items)
  show ?case
  proof (cases "path it = target")
    case True
    with 3(1) have "list_all2 (updated_as target pc h) items (fst (updateTree target pc (Suc h) items))"
      by (auto intro: list_all2_updated_as_mono)
    with True show ?thesis by (auto split: prod.splits)
  next
    case False
    obtain cs' h1 where c: "updateTree target pc h cs = (cs', h1)" by (cases "updateTree target pc h cs")
    obtain rest h2 where r: "updateTree target pc (Suc h1) items = (rest, h2)" by (cases "updateTree target pc (Suc h1) items")
    have h1: "h \<le> h1" using updateTree_mono[of h target pc cs] c by simp
    from 3(2)[OF False] c have a1: "list_all2 (updated_as target pc h) cs cs'" by simp
    from 3(3)[OF False c[symmetric] refl] r have "list_all2 (updated_as target pc (Suc h1)) items rest" by simp
    then have a2: "list_all2 (updated_as target pc h) items rest"
      using h1 by (auto intro: list_all2_updated_as_mono)
    from False c r a1 a2 h1 show ?thesis by simp
  qed
qed

lemma updateTree_erase:
  "target \<notin> set (concat (map paths_of t)) \<Longrightarrow> map erase (fst (updateTree target pc h t)) = map erase t"
  by (induction target pc h t rule: updateTree.induct) (auto split: prod.splits)

lemmas ex_defs = item_docs_def item_readme_def item_guide_def node_docs_def node_readme_def
  node_app_test_def node_src_def docs_children_def example_tree_def item_src_def item_app_test_def

text \<open>
  C3, as the code has it. Every node and its result stand in the relation \<open>updated_as\<close>:
  a node of the target path is replaced by a new object carrying the new children;
  another node without a children array is returned as the same object; another node
  with a children array, a sibling directory too, is returned as a new object with the
  same attributes and with its children treated likewise. A tree with no node of the
  target path keeps its contents.
\<close>

theorem updateTree_copies:
  "list_all2 (updated_as target pc h) t (fst (updateTree target pc h t)) \<and>
   (target \<notin> set (concat (map paths_of t)) \<longrightarrow>
      map erase (fst (updateTree target pc h t)) = map erase t)"
  by (simp add: updateTree_updated_as updateTree_erase)

theorem updateTree_copies_witness:
  "list_all2 (updated_as ''docs'' docs_children 5) example_tree
     (fst (updateTree ''docs'' docs_children 5 example_tree)) \<and>
   map erase (fst (updateTree ''docs'' docs_children 5 [node_readme, node_src]))
     = map erase [node_readme, node_src]"
proof -
  have "''docs'' \<notin> set (concat (map paths_of [node_readme, node_src]))"
    by (simp add: ex_defs)
  then show ?thesis
    using updateTree_copies [of "''docs''" docs_children 5 example_tree]
      updateTree_copies [of "''docs''" docs_children 5 "[node_readme, node_src]"]
    by blast
qed

text \<open>
  The claim as stated fails: after the children of \<open>docs\<close> are substituted, the sibling
  directory \<open>src\<close>, with its cached children, is a new object (address 6, not 2),
  equal to the old one in contents only.
\<close>

theorem updateTree_identity_counterexample:
  "path (item (example_tree ! 2)) = ''src'' \<and> oid (example_tree ! 2) = 2 \<and>
   oid (fst (updateTree ''docs'' docs_children 5 example_tree) ! 2) = 6 \<and>
   fst (updateTree ''docs'' docs_children 5 example_tree) ! 2 \<noteq> example_tree ! 2 \<and>
   erase (fst (updateTree ''docs'' docs_children 5 example_tree) ! 2) = erase (example_tree ! 2)"
  by (simp add: ex_defs)

subsection \<open>Expanding a folder\<close>

lemma no_children_iff: "no_children folder \<longleftrightarrow> children folder = None \<or> children folder = Some []"
  by (simp add: no_children_def split: option.splits)

lemma requests_fetchFolderContents:
  "requests (fetchFolderContents lc api p folder st) = requests st @ [folder_url p folder]"
  by (simp add: fetchFolderContents_def fetchFolderContents_settle_def folder_url_def Let_def
      split: sum.splits prod.splits)

lemma selectedFiles_fetchFolderContents:
  "selectedFiles (fetchFolderContents lc api p folder st) = selectedFiles st"
  by (simp add: fetchFolderContents_def fetchFolderContents_settle_def Let_def
      split: sum.splits prod.splits)

lemma error_fetchFolderContents:
  "error (fetchFolderContents lc api p folder st) = error st"
  by (simp add: fetchFolderContents_def fetchFolderContents_settle_def Let_def
      split: sum.splits prod.splits)

text \<open>
  C4, as the code has it. A click on a folder makes one request exactly when the folder
  is not expanded and has no children array or an empty one; otherwise it makes none and
  changes the expanded marker only. Every click toggles the marker.
\<close>

theorem toggleFolder_fetch:
  "requests (toggleFolder lc api p folder st) =
     (if fetch_needed folder st then requests st @ [folder_url p folder] else requests st) \<and>
   expandedFolders (toggleFolder lc api p folder st) =
     (if path (item folder) \<in> expandedFolders st then expandedFolders st - {path (item folder)}
      else insert (path (item folder)) (expandedFolders st)) \<and>
   (\<not> fetch_needed folder st \<longrightarrow>
      toggleFolder lc api p folder st =
        st\<lparr>expandedFolders :=
             (if path (item folder) \<in> expandedFolders st
              then expandedFolders st - {path (item folder)}
              else insert (path (item folder)) (expandedFolders st))\<rparr>)"
  by (simp add: toggleFolder_def fetch_needed_def no_children_iff requests_fetchFolderContents Let_def)

text \<open>
  The claim as stated fails for a directory whose fetched listing was empty: its children
  are the empty array, not absent, and after collapsing it the next click requests the
  listing again.
\<close>

theorem toggleFolder_refetch_counterexample:
  "children (hd (fileTree explorer_expanded)) = Some [] \<and>
   length (requests explorer_expanded) = 1 \<and>
   length (requests
     (toggleFolder codeunit_compare empty_listing_api example_props (hd (fileTree explorer_expanded))
       (toggleFolder codeunit_compare empty_listing_api example_props
          (hd (fileTree explorer_expanded)) explorer_expanded))) = 2"
  by code_simp

theorem toggleFolder_fetch_witness:
  "requests (toggleFolder codeunit_compare empty_listing_api example_props node_src explorer_start)
     = requests explorer_start \<and>
   toggleFolder codeunit_compare empty_listing_api example_props node_src explorer_start
     = explorer_start\<lparr>expandedFolders := {''src''}\<rparr>"
proof -
  have "\<not> fetch_needed node_src explorer_start"
    by (simp add: fetch_needed_def ex_defs)
  moreover have "path (item node_src) \<notin> expandedFolders explorer_start"
    by (simp add: explorer_start_def)
  moreover have "path (item node_src) = ''src''" by (simp add: ex_defs)
  ultimately show ?thesis
    using toggleFolder_fetch [of codeunit_compare empty_listing_api example_props node_src explorer_start]
    by (simp add: explorer_start_def)
qed

subsection \<open>Selecting a file\<close>

lemma findIndex_ge: "- 1 \<le> findIndex P xs"
  by (induction xs) (auto simp: Let_def)

lemma findIndex_none: "findIndex P xs = - 1 \<longleftrightarrow> (\<forall>x\<in>set xs. \<not> P x)"
proof (induction xs)
  case Nil
  then show ?case by simp
next
  case (Cons a xs)
  have "findIndex P xs + 1 \<noteq> - 1" using findIndex_ge[of P xs] by simp
  with Cons show ?case by (auto simp: Let_def)
qed

lemma findIndex_found:
  "\<exists>x\<in>set xs. P x \<Longrightarrow>
   \<exists>pre x post. xs = pre @ x # post \<and> P x \<and> (\<forall>y\<in>set pre. \<not> P y) \<and>
     findIndex P xs = int (length pre)"
proof (induction xs)
  case Nil
  then show ?case by simp
next
  case (Cons a xs)
  show ?case
  proof (cases "P a")
    case True
    then have "a # xs = [] @ a # xs \<and> P a \<and> (\<forall>y\<in>set []. \<not> P y) \<and> findIndex P (a # xs) = int (length ([]::'a list))"
      by simp
    then show ?thesis by blast
  next
    case False
    with Cons.prems have "\<exists>x\<in>set xs. P x" by auto
    from Cons.IH[OF this] obtain pre x post where
      p: "xs = pre @ x # post" "P x" "\<forall>y\<in>set pre. \<not> P y" "findIndex P xs = int (length pre)"
      by blast
    with False have "a # xs = (a # pre) @ x # post \<and> P x \<and> (\<forall>y\<in>set (a # pre). \<not> P y) \<and>
        findIndex P (a # xs) = int (length (a # pre))"
      by (simp add: Let_def)
    then show ?thesis by blast
  qed
qed

lemma splice1_at: "splice1 (int (length pre)) (pre @ x # post) = pre @ post"
  by (simp add: splice1_def)

lemma toggleFileSelection_absent:
  assumes "\<forall>f\<in>set (selectedFiles st). path (item f) \<noteq> path (item file)"
  shows "toggleFileSelection file st = st\<lparr>selectedFiles := selectedFiles st @ [file]\<rparr>"
proof -
  have "findIndex (\<lambda>f. path (item f) = path (item file)) (selectedFiles st) = - 1"
    using assms by (simp add: findIndex_none)
  then show ?thesis by (simp add: toggleFileSelection_def Let_def)
qed

lemma toggleFileSelection_present:
  assumes "\<exists>f\<in>set (selectedFiles st). path (item f) = path (item file)"
  shows "\<exists>pre x post. selectedFiles st = pre @ x # post \<and> path (item x) = path (item file) \<and>
           (\<forall>y\<in>set pre. path (item y) \<noteq> path (item file)) \<and>
           toggleFileSelection file st = st\<lparr>selectedFiles := pre @ post\<rparr>"
proof -
  from findIndex_found[where P = "\<lambda>f. path (item f) = path (item file)", OF assms]
  obtain pre x post where
    p: "selectedFiles st = pre @ x # post" "path (item x) = path (item file)"
       "\<forall>y\<in>set pre. path (item y) \<noteq> path (item file)"
       "findIndex (\<lambda>f. path (item f) = path (item file)) (selectedFiles st) = int (length pre)"
    by blast
  then have "toggleFileSelection file st = st\<lparr>selectedFiles := pre @ post\<rparr>"
    by (simp add: toggleFileSelection_def Let_def splice1_at)
  with p show ?thesis by blast
qed

lemma selectedFiles_toggleFolder:
  "selectedFiles (toggleFolder lc api p folder st) = selectedFiles st \<and>
   error (toggleFolder lc api p folder st) = error st"
  by (simp add: toggleFolder_def Let_def selectedFiles_fetchFolderContents error_fetchFolderContents)

text \<open>
  C5, as the code has it. A click on a directory or on a file that is not a code file
  leaves the selection and the error message as they are; no error is raised. A click on
  a code file appends it when no selected entry has its path, and otherwise removes the
  first selected entry with its path.
\<close>

theorem onClick_selection:
  "(\<not> selectable it \<longrightarrow>
      selectedFiles (onClick lc api p it st) = selectedFiles st \<and>
      error (onClick lc api p it st) = error st) \<and>
   (selectable it \<and> path (item it) \<notin> selected_paths st \<longrightarrow>
      onClick lc api p it st = st\<lparr>selectedFiles := selectedFiles st @ [it]\<rparr>) \<and>
   (selectable it \<and> path (item it) \<in> selected_paths st \<longrightarrow>
      (\<exists>pre x post. selectedFiles st = pre @ x # post \<and> path (item x) = path (item it) \<and>
         (\<forall>y\<in>set pre. path (item y) \<noteq> path (item it)) \<and>
         onClick lc api p it st = st\<lparr>selectedFiles := pre @ post\<rparr>))"
proof (intro conjI impI)
  assume "\<not> selectable it"
  then show "selectedFiles (onClick lc api p it st) = selectedFiles st"
    and "error (onClick lc api p it st) = error st"
    by (auto simp: selectable_def onClick_def selectedFiles_toggleFolder)
next
  assume a: "selectable it \<and> path (item it) \<notin> selected_paths st"
  then have "\<forall>f\<in>set (selectedFiles st). path (item f) \<noteq> path (item it)"
    unfolding selected_paths_def by (metis image_eqI)
  from toggleFileSelection_absent[OF this] a
  show "onClick lc api p it st = st\<lparr>selectedFiles := selectedFiles st @ [it]\<rparr>"
    by (simp add: selectable_def onClick_def)
next
  assume a: "selectable it \<and> path (item it) \<in> selected_paths st"
  then have "\<exists>f\<in>set (selectedFiles st). path (item f) = path (item it)"
    by (auto simp: selected_paths_def)
  from toggleFileSelection_present[OF this] obtain pre x post where
    p: "selectedFiles st = pre @ x # post" "path (item x) = path (item it)"
       "\<forall>y\<in>set pre. path (item y) \<noteq> path (item it)"
       "toggleFileSelection it st = st\<lparr>selectedFiles := pre @ post\<rparr>"
    by blast
  from a p(4) have "onClick lc api p it st = st\<lparr>selectedFiles := pre @ post\<rparr>"
    by (simp add: selectable_def onClick_def)
  then show "\<exists>pre x post. selectedFiles st = pre @ x # post \<and> path (item x) = path (item it) \<and>
         (\<forall>y\<in>set pre. path (item y) \<noteq> path (item it)) \<and>
         onClick lc api p it st = st\<lparr>selectedFiles := pre @ post\<rparr>"
    using p(1,2,3) by blast
qed

theorem onClick_selection_witness:
  "selectedFiles (onClick codeunit_compare empty_listing_api example_props node_readme explorer_start)
     = selectedFiles explorer_start \<and>
   onClick codeunit_compare empty_listing_api example_props node_app_test explorer_start
     = explorer_start\<lparr>selectedFiles := [node_app_test]\<rparr> \<and>
   onClick codeunit_compare empty_listing_api example_props node_app_test
       (explorer_start\<lparr>selectedFiles := [node_app_test]\<rparr>) = explorer_start"
proof -
  have 1: "\<not> selectable node_readme" by (simp add: selectable_def ex_defs)
  have 2: "selectable node_app_test" by (simp add: selectable_def ex_defs)
  have 3: "path (item node_app_test) \<notin> selected_paths explorer_start"
    by (simp add: selected_paths_def explorer_start_def)
  have 4: "path (item node_app_test) \<in> selected_paths (explorer_start\<lparr>selectedFiles := [node_app_test]\<rparr>)"
    by (simp add: selected_paths_def)
  from 4 2
    onClick_selection [of node_app_test codeunit_compare empty_listing_api example_props
      "explorer_start\<lparr>selectedFiles := [node_app_test]\<rparr>"]
  obtain pre x post where
    p: "[node_app_test] = pre @ x # post" 
       "onClick codeunit_compare empty_listing_api example_props node_app_test
          (explorer_start\<lparr>selectedFiles := [node_app_test]\<rparr>)
        = explorer_start\<lparr>selectedFiles := pre @ post\<rparr>"
    by auto
  from p(1) have "pre = [] \<and> post = []" by (cases pre) auto
  with p(2) have
    "onClick codeunit_compare empty_listing_api example_props node_app_test
       (explorer_start\<lparr>selectedFiles := [node_app_test]\<rparr>) = explorer_start"
    by (simp add: explorer_start_def)
  with 1 2 3 
    onClick_selection [of node_readme codeunit_compare empty_listing_api example_props explorer_start]
    onClick_selection [of node_app_test codeunit_compare empty_listing_api example_props explorer_start]
  show ?thesis by (simp add: explorer_start_def)
qed

text \<open>
  The claim as stated fails: \<open>toggleFileSelection\<close> has no check of its own and adds a
  directory to the selection; the click handler, which has the check, returns the state
  as it was for a file that is not a code file, without an error.
\<close>

theorem toggleFileSelection_directory_counterexample:
  "type (item node_src) = ''dir'' \<and>
   selectedFiles explorer_start = [] \<and>
   selectedFiles (toggleFileSelection node_src explorer_start) = [node_src] \<and>
   onClick codeunit_compare empty_listing_api example_props node_readme explorer_start
     = explorer_start"
  by (simp add: toggleFileSelection_def onClick_def explorer_start_def ex_defs)

subsection \<open>Overlapping expansions\<close>

text \<open>
  Two expansions whose answers arrive after both clicks are settled on the same captured
  tree: the second answer puts back the tree in which \<open>docs\<close> has no children yet.
\<close>

lemma overlapping_expansions:
  "map children (fileTree
     (fetchFolderContents_settle codeunit_compare node_docs (fileTree two_folders)
        (Inr [item_guide]) two_folders))
     = [Some [Node 2 item_guide ''docs/guide.md'' False False None], Some []] \<and>
   map children (fileTree
     (fetchFolderContents_settle codeunit_compare node_lib (fileTree two_folders) (Inr [item_a])
        (fetchFolderContents_settle codeunit_compare node_docs (fileTree two_folders)
           (Inr [item_guide]) two_folders)))
     = [Some [], Some [Node 5 item_a ''lib/a.js'' True False None]]"
  by code_simp

section \<open>Properties of the generation pipeline\<close>

subsection \<open>Content retrieval\<close>

lemma fetchFileContent_returns:
  "\<exists>content calls1. fetchFileContent sc env file calls = (Inr content, calls1)"
  by (simp add: fetchFileContent_def split: prod.splits sum.splits)

lemma mockContent_nonempty: "mockContent fname err \<noteq> []"
  by (simp add: mockContent_def)

lemma mockContent_text:
  "mockContent fname err =
     ''// Mock content for '' @ fname @ '' (failed to fetch real content)'' @ [CHR 0x0A] @
     ''// Error: '' @ message err @ [CHR 0x0A] @
     ''function sampleFunction() {'' @ [CHR 0x0A] @
     ''  return '' @ [CHR 0x22] @ ''Hello World'' @ [CHR 0x22] @ '';'' @ [CHR 0x0A] @ ''}''"
  by (simp add: mockContent_def newline_def dquote_def)

lemma fetch_via_download_url_cases:
  "fetch_via_download_url env url calls =
     ((case fetch_download env (length calls) url of
         Rejected e \<Rightarrow> Inl e
       | Response rok rstatus rbody \<Rightarrow>
           if rok then rbody
           else Inl (JsError (''Failed to fetch via download_url: '' @ string_of_nat rstatus))),
      calls @ [GetDownload url])"
  by (simp add: fetch_via_download_url_def Let_def split: fetch_result.splits)

lemma fetchFileContent_download:
  assumes "truthy (download_url (item file))" "download_url (item file) = Some url"
  shows "fetchFileContent sc env file calls =
     (case fst (fetch_via_download_url env url calls) of
        Inl err \<Rightarrow> Inr (mockContent (name (item file)) err)
      | Inr content \<Rightarrow> Inr content, calls @ [GetDownload url])"
  using assms
  by (simp add: fetchFileContent_def fetch_via_download_url_cases split: sum.splits)

text \<open>
  C2, as the code has it. Content retrieval always returns a text and never throws. For a
  file with a direct URL, the text of a successful fetch is returned as it is (it may be
  empty); when that fetch fails in any way, the fetch is the only request made and the
  placeholder is returned at once. The placeholder is the five lines of the source, with
  the file name in the first and, in the second, the message of the failure: the message
  of the rejection, \<open>Failed to fetch via download_url:\<close> and the status for a status
  outside 2xx, or the message with which reading the body failed. It is not empty.
\<close>

theorem fetchFileContent_fallback:
  "(\<exists>content calls1. fetchFileContent sc env file calls = (Inr content, calls1)) \<and>
   (truthy (download_url (item file)) \<and> download_url (item file) = Some url \<and>
    fetch_download env (length calls) url = Response True s (Inr text) \<longrightarrow>
      fetchFileContent sc env file calls = (Inr text, calls @ [GetDownload url])) \<and>
   (truthy (download_url (item file)) \<and> download_url (item file) = Some url \<and>
    download_fails (fetch_download env (length calls) url) \<longrightarrow>
      (\<exists>msg. fetchFileContent sc env file calls
                = (Inr (''// Mock content for '' @ name (item file)
                          @ '' (failed to fetch real content)'' @ [CHR 0x0A]
                          @ ''// Error: '' @ msg @ [CHR 0x0A]
                          @ ''function sampleFunction() {'' @ [CHR 0x0A]
                          @ ''  return '' @ [CHR 0x22] @ ''Hello World'' @ [CHR 0x22] @ '';''
                          @ [CHR 0x0A] @ ''}''),
                   calls @ [GetDownload url]) \<and>
         (\<forall>err. fetch_download env (length calls) url = Rejected err \<longrightarrow> msg = message err) \<and>
         (\<forall>code b. fetch_download env (length calls) url = Response False code b \<longrightarrow>
            msg = ''Failed to fetch via download_url: '' @ string_of_nat code) \<and>
         (\<forall>code err. fetch_download env (length calls) url = Response True code (Inl err) \<longrightarrow>
            msg = message err))) \<and>
   mockContent (name (item file)) e \<noteq> []"
proof (intro conjI impI)
  show "\<exists>content calls1. fetchFileContent sc env file calls = (Inr content, calls1)"
    by (rule fetchFileContent_returns)
next
  assume a: "truthy (download_url (item file)) \<and> download_url (item file) = Some url \<and>
    fetch_download env (length calls) url = Response True s (Inr text)"
  then have "truthy (download_url (item file))" "download_url (item file) = Some url"
    "fetch_download env (length calls) url = Response True s (Inr text)"
    by blast+
  then show "fetchFileContent sc env file calls = (Inr text, calls @ [GetDownload url])"
    by (simp add: fetchFileContent_download fetch_via_download_url_cases)
next
  let ?r = "fetch_download env (length calls) url"
  let ?text = "\<lambda>msg. ''// Mock content for '' @ name (item file)
                          @ '' (failed to fetch real content)'' @ [CHR 0x0A]
                          @ ''// Error: '' @ msg @ [CHR 0x0A]
                          @ ''function sampleFunction() {'' @ [CHR 0x0A]
                          @ ''  return '' @ [CHR 0x22] @ ''Hello World'' @ [CHR 0x22] @ '';''
                          @ [CHR 0x0A] @ ''}''"
  assume a: "truthy (download_url (item file)) \<and> download_url (item file) = Some url \<and>
    download_fails ?r"
  then have "truthy (download_url (item file))" "download_url (item file) = Some url"
    by blast+
  then have f: "fetchFileContent sc env file calls =
     (case fst (fetch_via_download_url env url calls) of
        Inl err \<Rightarrow> Inr (mockContent (name (item file)) err)
      | Inr content \<Rightarrow> Inr content, calls @ [GetDownload url])"
    by (rule fetchFileContent_download)
  from a have d: "download_fails ?r" by simp
  have "\<exists>msg. fetchFileContent sc env file calls = (Inr (?text msg), calls @ [GetDownload url]) \<and>
         (\<forall>err. ?r = Rejected err \<longrightarrow> msg = message err) \<and>
         (\<forall>code b. ?r = Response False code b \<longrightarrow>
            msg = ''Failed to fetch via download_url: '' @ string_of_nat code) \<and>
         (\<forall>code err. ?r = Response True code (Inl err) \<longrightarrow> msg = message err)"
  proof (cases ?r)
    case (Rejected err)
    with f have "fetchFileContent sc env file calls = (Inr (?text (message err)), calls @ [GetDownload url])"
      by (simp add: fetch_via_download_url_cases mockContent_text)
    with Rejected show ?thesis by auto
  next
    case (Response rok code b)
    show ?thesis
    proof (cases rok)
      case False
      with f Response have "fetchFileContent sc env file calls
          = (Inr (?text (''Failed to fetch via download_url: '' @ string_of_nat code)),
             calls @ [GetDownload url])"
        by (simp add: fetch_via_download_url_cases mockContent_text)
      with Response False show ?thesis by auto
    next
      case True
      with d Response obtain err where b: "b = Inl err"
        by (auto simp: download_fails_def isl_def)
      with f Response True have "fetchFileContent sc env file calls
          = (Inr (?text (message err)), calls @ [GetDownload url])"
        by (simp add: fetch_via_download_url_cases mockContent_text)
      with Response True b show ?thesis by auto
    qed
  qed
  then show "\<exists>msg. fetchFileContent sc env file calls
                = (Inr (''// Mock content for '' @ name (item file)
                          @ '' (failed to fetch real content)'' @ [CHR 0x0A]
                          @ ''// Error: '' @ msg @ [CHR 0x0A]
                          @ ''function sampleFunction() {'' @ [CHR 0x0A]
                          @ ''  return '' @ [CHR 0x22] @ ''Hello World'' @ [CHR 0x22] @ '';''
                          @ [CHR 0x0A] @ ''}''),
                   calls @ [GetDownload url]) \<and>
         (\<forall>err. fetch_download env (length calls) url = Rejected err \<longrightarrow> msg = message err) \<and>
         (\<forall>code b. fetch_download env (length calls) url = Response False code b \<longrightarrow>
            msg = ''Failed to fetch via download_url: '' @ string_of_nat code) \<and>
         (\<forall>code err. fetch_download env (length calls) url = Response True code (Inl err) \<longrightarrow>
            msg = message err)" .
next
  show "mockContent (name (item file)) e \<noteq> []" by (rule mockContent_nonempty)
qed

theorem fetchFileContent_fallback_witness:
  "fetchFileContent TestCaseGenerator_scope source_env node_a_js []
     = (Inr ''let x = 1;'', [GetDownload ''https://raw.test/a.js'']) \<and>
   fetchFileContent TestCaseGenerator_scope failing_env node_a_js []
     = (Inr (''// Mock content for a.js (failed to fetch real content)'' @ [CHR 0x0A]
             @ ''// Error: Failed to fetch'' @ [CHR 0x0A]
             @ ''function sampleFunction() {'' @ [CHR 0x0A]
             @ ''  return '' @ [CHR 0x22] @ ''Hello World'' @ [CHR 0x22] @ '';''
             @ [CHR 0x0A] @ ''}''),
        [GetDownload ''https://raw.test/a.js'']) \<and>
   fetchFileContent TestCaseGenerator_scope not_found_env node_a_js []
     = (Inr (''// Mock content for a.js (failed to fetch real content)'' @ [CHR 0x0A]
             @ ''// Error: Failed to fetch via download_url: 404'' @ [CHR 0x0A]
             @ ''function sampleFunction() {'' @ [CHR 0x0A]
             @ ''  return '' @ [CHR 0x22] @ ''Hello World'' @ [CHR 0x22] @ '';''
             @ [CHR 0x0A] @ ''}''),
        [GetDownload ''https://raw.test/a.js''])"
proof -
  have 1: "truthy (download_url (item node_a_js)) \<and>
           download_url (item node_a_js) = Some ''https://raw.test/a.js''"
    by (simp add: node_a_js_def truthy_def)
  have 2: "fetch_download source_env (length ([]::generator_call list)) ''https://raw.test/a.js''
             = Response True 200 (Inr ''let x = 1;'')"
    by (simp add: source_env_def failing_env_def)
  have 3: "fetch_download failing_env (length ([]::generator_call list)) ''https://raw.test/a.js''
             = Rejected (JsError ''Failed to fetch'')"
    by (simp add: failing_env_def)
  have 4: "fetch_download not_found_env (length ([]::generator_call list)) ''https://raw.test/a.js''
             = Response False 404 (Inr [])"
    by (simp add: not_found_env_def failing_env_def)
  have n: "name (item node_a_js) = ''a.js''" by (simp add: node_a_js_def)
  have s: "string_of_nat 404 = ''404''" by code_simp
  have 5: "download_fails (fetch_download failing_env (length ([]::generator_call list))
             ''https://raw.test/a.js'')"
    unfolding 3 by (simp add: download_fails_def)
  have 6: "download_fails (fetch_download not_found_env (length ([]::generator_call list))
             ''https://raw.test/a.js'')"
    unfolding 4 by (simp add: download_fails_def)
  have a: "fetchFileContent TestCaseGenerator_scope source_env node_a_js []
     = (Inr ''let x = 1;'', [GetDownload ''https://raw.test/a.js''])"
  proof -
    from 1 2 have "truthy (download_url (item node_a_js)) \<and>
        download_url (item node_a_js) = Some ''https://raw.test/a.js'' \<and>
        fetch_download source_env (length ([]::generator_call list)) ''https://raw.test/a.js''
          = Response True 200 (Inr ''let x = 1;'')"
      by blast
    from fetchFileContent_fallback [of TestCaseGenerator_scope source_env node_a_js "[]"
        "''https://raw.test/a.js''" 200 "''let x = 1;''", THEN conjunct2, THEN conjunct1,
        THEN mp, OF this]
    show ?thesis by simp
  qed
  from 1 5 fetchFileContent_fallback [of TestCaseGenerator_scope failing_env node_a_js "[]"
        "''https://raw.test/a.js''", THEN conjunct2, THEN conjunct2, THEN conjunct1]
  obtain m1 where b1: "fetchFileContent TestCaseGenerator_scope failing_env node_a_js []
     = (Inr (''// Mock content for '' @ name (item node_a_js)
             @ '' (failed to fetch real content)'' @ [CHR 0x0A]
             @ ''// Error: '' @ m1 @ [CHR 0x0A]
             @ ''function sampleFunction() {'' @ [CHR 0x0A]
             @ ''  return '' @ [CHR 0x22] @ ''Hello World'' @ [CHR 0x22] @ '';''
             @ [CHR 0x0A] @ ''}''),
        [] @ [GetDownload ''https://raw.test/a.js''])"
    and b2: "\<forall>err. fetch_download failing_env (length ([]::generator_call list))
               ''https://raw.test/a.js'' = Rejected err \<longrightarrow> m1 = message err"
    by blast
  from b2 3 have "m1 = ''Failed to fetch''" by simp
  with b1 have b: "fetchFileContent TestCaseGenerator_scope failing_env node_a_js []
     = (Inr (''// Mock content for a.js (failed to fetch real content)'' @ [CHR 0x0A]
             @ ''// Error: Failed to fetch'' @ [CHR 0x0A]
             @ ''function sampleFunction() {'' @ [CHR 0x0A]
             @ ''  return '' @ [CHR 0x22] @ ''Hello World'' @ [CHR 0x22] @ '';''
             @ [CHR 0x0A] @ ''}''),
        [GetDownload ''https://raw.test/a.js''])"
    unfolding n by simp
  from 1 6 fetchFileContent_fallback [of TestCaseGenerator_scope not_found_env node_a_js "[]"
        "''https://raw.test/a.js''", THEN conjunct2, THEN conjunct2, THEN conjunct1]
  obtain m2 where c1: "fetchFileContent TestCaseGenerator_scope not_found_env node_a_js []
     = (Inr (''// Mock content for '' @ name (item node_a_js)
             @ '' (failed to fetch real content)'' @ [CHR 0x0A]
             @ ''// Error: '' @ m2 @ [CHR 0x0A]
             @ ''function sampleFunction() {'' @ [CHR 0x0A]
             @ ''  return '' @ [CHR 0x22] @ ''Hello World'' @ [CHR 0x22] @ '';''
             @ [CHR 0x0A] @ ''}''),
        [] @ [GetDownload ''https://raw.test/a.js''])"
    and c2: "\<forall>code b. fetch_download not_found_env (length ([]::generator_call list))
               ''https://raw.test/a.js'' = Response False code b \<longrightarrow>
               m2 = ''Failed to fetch via download_url: '' @ string_of_nat code"
    by blast
  from c2 4 s have "m2 = ''Failed to fetch via download_url: 404''" by simp
  with c1 have c: "fetchFileContent TestCaseGenerator_scope not_found_env node_a_js []
     = (Inr (''// Mock content for a.js (failed to fetch real content)'' @ [CHR 0x0A]
             @ ''// Error: Failed to fetch via download_url: 404'' @ [CHR 0x0A]
             @ ''function sampleFunction() {'' @ [CHR 0x0A]
             @ ''  return '' @ [CHR 0x22] @ ''Hello World'' @ [CHR 0x22] @ '';''
             @ [CHR 0x0A] @ ''}''),
        [GetDownload ''https://raw.test/a.js''])"
    unfolding n by simp
  from a b c show ?thesis by blast
qed

text \<open>
  The claim as stated fails twice. When the fetch of the direct URL fails, no request to
  the contents API follows: the placeholder is returned after the one request. And a
  successful fetch of an empty file returns the empty string.
\<close>

theorem fetchFileContent_no_api_fallback_counterexample:
  "fetchFileContent TestCaseGenerator_scope failing_env node_a_js []
     = (Inr (mockContent ''a.js'' (JsError ''Failed to fetch'')),
        [GetDownload ''https://raw.test/a.js'']) \<and>
   fetchFileContent TestCaseGenerator_scope empty_file_env node_a_js []
     = (Inr [], [GetDownload ''https://raw.test/a.js''])"
  by (simp add: fetchFileContent_def fetch_via_download_url_def failing_env_def
      empty_file_env_def node_a_js_def truthy_def)

text \<open>
  In the scope of the application the request to the contents API is never made: for a
  file without a direct URL, reading \<open>selectedRepo\<close> throws, and the placeholder carries
  that error.
\<close>

lemma fetchFileContent_api_unreachable:
  "\<not> truthy (download_url (item file)) \<Longrightarrow>
   fetchFileContent TestCaseGenerator_scope env file calls
     = (Inr (mockContent (name (item file)) (JsError ''selectedRepo is not defined'')), calls)"
  by (simp add: fetchFileContent_def fetch_via_api_def TestCaseGenerator_scope_def)

subsection \<open>The run\<close>

lemma generateTestCasesForFile_returns:
  "\<exists>tcs. generateTestCasesForFile env code fname calls = (Inr tcs, calls @ [PostGenerate code])"
  by (simp add: generateTestCasesForFile_def split: sum.splits)

lemma generation_loop_total:
  "\<exists>ss st1. generation_loop sc env files i summaries st = (Inr (summaries @ ss), st1) \<and>
     map fileName ss = map name (map item files) \<and>
     map filePath ss = map path (map item files) \<and>
     map status ss = replicate (length files) ''completed'' \<and>
     map testCaseCount ss = map length (map testCases ss) \<and>
     testCaseSummaries st1 = (if files = [] then testCaseSummaries st else summaries @ ss) \<and>
     generation_error st1 = generation_error st \<and> isGenerating st1 = isGenerating st \<and>
     delivered st1 = delivered st"
proof (induction files arbitrary: i summaries st)
  case Nil
  then show ?case by simp
next
  case (Cons fl files)
  let ?st1 = "st\<lparr>currentFileIndex := i\<rparr>"
  obtain content c1 where fc: "fetchFileContent sc env fl (call_log ?st1) = (Inr content, c1)"
    using fetchFileContent_returns by blast
  obtain tcs where g: "generateTestCasesForFile env content (name (item fl)) c1
      = (Inr tcs, c1 @ [PostGenerate content])"
    using generateTestCasesForFile_returns by blast
  let ?s = "\<lparr>fileName = name (item fl), filePath = path (item fl),
              testCaseCount = length tcs, status = ''completed'', testCases = tcs\<rparr>"
  let ?st2 = "?st1\<lparr>call_log := c1 @ [PostGenerate content], testCaseSummaries := summaries @ [?s],
                generatedTestCases := (generatedTestCases ?st1)(path (item fl) \<mapsto> tcs)\<rparr>"
  from Cons.IH[of "Suc i" "summaries @ [?s]" ?st2]
  obtain ss st3 where r:
    "generation_loop sc env files (Suc i) (summaries @ [?s]) ?st2 = (Inr ((summaries @ [?s]) @ ss), st3)"
    "map fileName ss = map name (map item files)"
    "map filePath ss = map path (map item files)"
    "map status ss = replicate (length files) ''completed''"
    "map testCaseCount ss = map length (map testCases ss)"
    "testCaseSummaries st3 = (if files = [] then testCaseSummaries ?st2 else (summaries @ [?s]) @ ss)"
    "generation_error st3 = generation_error ?st2" "isGenerating st3 = isGenerating ?st2"
    "delivered st3 = delivered ?st2"
    by blast
  have "generation_loop sc env (fl # files) i summaries st = (Inr (summaries @ (?s # ss)), st3)"
    using fc g r(1) by (simp add: Let_def)
  moreover have "ss = [] " if "files = []" using that r(2) by simp
  ultimately show ?case using r(2-) 
    by (intro exI[of _ "?s # ss"] exI[of _ st3]) auto
qed

text \<open>
  C1. Whatever the scope and the services do, a run of \<open>startGeneration\<close> over a
  selection ends without an error message, hands its summaries to
  \<open>onTestCasesGenerated\<close>, and these are one summary per selected file, in the order of
  the selection, each with status \<open>completed\<close> and the count of its test cases.
\<close>

theorem startGeneration_summaries:
  "generation_error (startGeneration sc env files st) = [] \<and>
   \<not> isGenerating (startGeneration sc env files st) \<and>
   (\<exists>ss. delivered (startGeneration sc env files st) = Some ss \<and>
      testCaseSummaries (startGeneration sc env files st) = ss \<and>
      length ss = length files \<and>
      map fileName ss = map name (map item files) \<and>
      map filePath ss = map path (map item files) \<and>
      map status ss = replicate (length files) ''completed'' \<and>
      map testCaseCount ss = map length (map testCases ss))"
proof -
  let ?st0 = "st\<lparr>isGenerating := True, generation_error := [], currentFileIndex := 0,
                 testCaseSummaries := [], generatedTestCases := Map.empty\<rparr>"
  from generation_loop_total[of sc env files 0 "[]" ?st0]
  obtain ss st1 where r:
    "generation_loop sc env files 0 [] ?st0 = (Inr ss, st1)"
    "map fileName ss = map name (map item files)"
    "map filePath ss = map path (map item files)"
    "map status ss = replicate (length files) ''completed''"
    "map testCaseCount ss = map length (map testCases ss)"
    "testCaseSummaries st1 = (if files = [] then testCaseSummaries ?st0 else ss)"
    "generation_error st1 = generation_error ?st0"
    by auto
  from r(2) have len: "length ss = length files" by (metis length_map)
  then have "testCaseSummaries st1 = ss" using r(6) by auto
  with r len show ?thesis by (simp add: startGeneration_def Let_def)
qed

theorem startGeneration_summaries_witness:
  "generation_error (startGeneration TestCaseGenerator_scope failing_env [node_a_js, node_b_py] generator_start) = [] \<and>
   map fileName (testCaseSummaries (startGeneration TestCaseGenerator_scope failing_env [node_a_js, node_b_py] generator_start))
     = [''a.js'', ''b.py'']"
  using startGeneration_summaries [of TestCaseGenerator_scope failing_env "[node_a_js, node_b_py]" generator_start]
  by (auto simp: node_a_js_def node_b_py_def)

subsection \<open>When the generation service fails\<close>

lemma generateTestCasesForFile_mock:
  assumes "generation_fails (fetch_generate env (length calls) code)"
  shows "generateTestCasesForFile env code fname calls
           = (Inr (mockTestCases fname), calls @ [PostGenerate code])"
  using assms
  by (auto simp: generateTestCasesForFile_def generate_request_def generation_fails_def
      split: fetch_result.splits sum.splits)

lemma generation_loop_mock:
  assumes "\<forall>n code. generation_fails (fetch_generate env n code)"
  shows "fst (generation_loop sc env files i summaries st) = Inr (summaries @ map mock_summary files)"
proof (induction files arbitrary: i summaries st)
  case Nil
  then show ?case by simp
next
  case (Cons fl files)
  obtain content c1 where fc:
    "fetchFileContent sc env fl (call_log (st\<lparr>currentFileIndex := i\<rparr>)) = (Inr content, c1)"
    using fetchFileContent_returns by blast
  have g: "generateTestCasesForFile env content (name (item fl)) c1
      = (Inr (mockTestCases (name (item fl))), c1 @ [PostGenerate content])"
    using assms by (simp add: generateTestCasesForFile_mock)
  have "length (mockTestCases (name (item fl))) = 4" by (simp add: mockTestCases_def)
  with fc g show ?case
    by (simp add: Let_def Cons.IH mock_summary_def)
qed

lemma mock_summary_text:
  "mock_summary f =
     \<lparr>fileName = name (item f), filePath = path (item f), testCaseCount = 4,
      status = ''completed'',
      testCases =
        [\<lparr>tc_input = ''// Function from '' @ name (item f),
          tc_output = CHR 0x22 # ''Mock Result 1'' @ [CHR 0x22]\<rparr>,
         \<lparr>tc_input = ''// Test case 2 for '' @ name (item f),
          tc_output = CHR 0x22 # ''Mock Result 2'' @ [CHR 0x22]\<rparr>,
         \<lparr>tc_input = ''// Test case 3 for '' @ name (item f),
          tc_output = CHR 0x22 # ''Mock Result 3'' @ [CHR 0x22]\<rparr>,
         \<lparr>tc_input = ''// Test case 4 for '' @ name (item f),
          tc_output = CHR 0x22 # ''Mock Result 4'' @ [CHR 0x22]\<rparr>]\<rparr>"
  by (simp add: mock_summary_def mockTestCases_def dquote_def)

text \<open>
  C8. When every call of the generation service fails (whether the content fetches fail
  or not), the run delivers, for each selected file in order, the summary with count 4,
  status \<open>completed\<close> and the four mock test cases, whose inputs name the file and whose
  outputs are the quoted texts \<open>Mock Result 1\<close> to \<open>Mock Result 4\<close>; for the selection
  of \<open>a.js\<close> and \<open>b.py\<close> with all services failing these are two summaries.
\<close>

theorem all_failures_give_mock_summaries:
  assumes "\<forall>n code. generation_fails (fetch_generate env n code)"
  shows "delivered (startGeneration sc env files st) =
           Some (testCaseSummaries (startGeneration sc env files st)) \<and>
         testCaseSummaries (startGeneration sc env files st) =
           map (\<lambda>f.
             \<lparr>fileName = name (item f), filePath = path (item f), testCaseCount = 4,
              status = ''completed'',
              testCases =
                [\<lparr>tc_input = ''// Function from '' @ name (item f),
                  tc_output = CHR 0x22 # ''Mock Result 1'' @ [CHR 0x22]\<rparr>,
                 \<lparr>tc_input = ''// Test case 2 for '' @ name (item f),
                  tc_output = CHR 0x22 # ''Mock Result 2'' @ [CHR 0x22]\<rparr>,
                 \<lparr>tc_input = ''// Test case 3 for '' @ name (item f),
                  tc_output = CHR 0x22 # ''Mock Result 3'' @ [CHR 0x22]\<rparr>,
                 \<lparr>tc_input = ''// Test case 4 for '' @ name (item f),
                  tc_output = CHR 0x22 # ''Mock Result 4'' @ [CHR 0x22]\<rparr>]\<rparr>) files"
proof -
  let ?st0 = "st\<lparr>isGenerating := True, generation_error := [], currentFileIndex := 0,
                 testCaseSummaries := [], generatedTestCases := Map.empty\<rparr>"
  obtain r st1 where l: "generation_loop sc env files 0 [] ?st0 = (r, st1)"
    by (cases "generation_loop sc env files 0 [] ?st0")
  with generation_loop_mock[OF assms, of sc files 0 "[]" ?st0]
  have r: "r = Inr (map mock_summary files)" by simp
  from generation_loop_total[of sc env files 0 "[]" ?st0] l r
  have "testCaseSummaries st1 = (if files = [] then [] else map mock_summary files)"
    by auto
  then have "testCaseSummaries st1 = map mock_summary files" by auto
  with l r have "delivered (startGeneration sc env files st) = Some (map mock_summary files)"
    and "testCaseSummaries (startGeneration sc env files st) = map mock_summary files"
    by (simp_all add: startGeneration_def Let_def)
  then show ?thesis unfolding mock_summary_text by simp
qed

theorem all_failures_give_mock_summaries_witness:
  "delivered (startGeneration TestCaseGenerator_scope failing_env [node_a_js, node_b_py]
     generator_start)
     = Some [\<lparr>fileName = ''a.js'', filePath = ''src/a.js'', testCaseCount = 4,
               status = ''completed'',
               testCases =
                 [\<lparr>tc_input = ''// Function from a.js'',
                   tc_output = CHR 0x22 # ''Mock Result 1'' @ [CHR 0x22]\<rparr>,
                  \<lparr>tc_input = ''// Test case 2 for a.js'',
                   tc_output = CHR 0x22 # ''Mock Result 2'' @ [CHR 0x22]\<rparr>,
                  \<lparr>tc_input = ''// Test case 3 for a.js'',
                   tc_output = CHR 0x22 # ''Mock Result 3'' @ [CHR 0x22]\<rparr>,
                  \<lparr>tc_input = ''// Test case 4 for a.js'',
                   tc_output = CHR 0x22 # ''Mock Result 4'' @ [CHR 0x22]\<rparr>]\<rparr>,
             \<lparr>fileName = ''b.py'', filePath = ''src/b.py'', testCaseCount = 4,
               status = ''completed'',
               testCases =
                 [\<lparr>tc_input = ''// Function from b.py'',
                   tc_output = CHR 0x22 # ''Mock Result 1'' @ [CHR 0x22]\<rparr>,
                  \<lparr>tc_input = ''// Test case 2 for b.py'',
                   tc_output = CHR 0x22 # ''Mock Result 2'' @ [CHR 0x22]\<rparr>,
                  \<lparr>tc_input = ''// Test case 3 for b.py'',
                   tc_output = CHR 0x22 # ''Mock Result 3'' @ [CHR 0x22]\<rparr>,
                  \<lparr>tc_input = ''// Test case 4 for b.py'',
                   tc_output = CHR 0x22 # ''Mock Result 4'' @ [CHR 0x22]\<rparr>]\<rparr>]"
proof -
  have "\<forall>n code. generation_fails (fetch_generate failing_env n code)"
    by (simp add: failing_env_def generation_fails_def)
  from all_failures_give_mock_summaries[OF this, of TestCaseGenerator_scope
      "[node_a_js, node_b_py]" generator_start]
  show ?thesis by (simp add: node_a_js_def node_b_py_def)
qed

section \<open>Properties of publishing\<close>

subsection \<open>Ensuring the branch\<close>

lemma createBranchIfNotExists_returns: "fst (createBranchIfNotExists env p st) = Inr ()"
  by (simp add: createBranchIfNotExists_def split: prod.splits sum.splits)

lemma create_branch_try_cases:
  "create_branch_try env p st =
     (case fetch_ref env (length (viewer_calls st)) (ref_url p) of
        Rejected e \<Rightarrow> (Inl e, viewer_calls st @ [GetRef (ref_url p)])
      | Response rok rstatus rbody \<Rightarrow>
          if \<not> rok then (Inl (JsError ''Failed to get default branch''),
                           viewer_calls st @ [GetRef (ref_url p)])
          else
            (case rbody of
               Inl e \<Rightarrow> (Inl e, viewer_calls st @ [GetRef (ref_url p)])
             | Inr (RefJson None) \<Rightarrow>
                 (Inl (JsError ''Cannot read properties of undefined''),
                  viewer_calls st @ [GetRef (ref_url p)])
             | Inr (RefJson (Some tip)) \<Rightarrow>
                 (case fetch_create_ref env (Suc (length (viewer_calls st))) (refs_url p)
                         \<lparr>ref = ''refs/heads/'' @ branchName st, sha = tip\<rparr> of
                    Rejected e \<Rightarrow> Inl e
                  | Response cok cstatus cbody \<Rightarrow>
                      if \<not> cok \<and> cstatus \<noteq> 422 then Inl (JsError ''Failed to create branch'')
                      else Inr (),
                  viewer_calls st @ [GetRef (ref_url p),
                    PostRefs (refs_url p) \<lparr>ref = ''refs/heads/'' @ branchName st, sha = tip\<rparr>])))"
  by (simp add: create_branch_try_def ref_url_def refs_url_def Let_def
      split: fetch_result.splits sum.splits ref_json.splits option.splits)

lemma createBranchIfNotExists_calls_prefix:
  "\<exists>more. viewer_calls (snd (createBranchIfNotExists env p st)) = viewer_calls st @ more"
  by (simp add: createBranchIfNotExists_def create_branch_try_cases
      split: prod.splits sum.splits fetch_result.splits ref_json.splits option.splits if_splits)

lemma createBranchIfNotExists_fields:
  "fileName_input (snd (createBranchIfNotExists env p st)) = fileName_input st \<and>
   branchName (snd (createBranchIfNotExists env p st)) = branchName st \<and>
   commitMessage (snd (createBranchIfNotExists env p st)) = commitMessage st"
  by (simp add: createBranchIfNotExists_def split: prod.splits sum.splits)

lemma createOrUpdateFile_calls:
  "viewer_calls (snd (createOrUpdateFile env p code st)) =
     viewer_calls st @ GetExisting (check_url p st) #
       (case btoa_utf8 env code of
          Inl e \<Rightarrow> []
        | Inr c \<Rightarrow>
            [PutContents (put_url p st)
               \<lparr>body_message = commitMessage st, body_content = c, body_branch = branchName st,
                body_sha =
                  (if truthy (existingFileSha
                       (fetch_existing env (length (viewer_calls st)) (check_url p st)))
                   then existingFileSha
                       (fetch_existing env (length (viewer_calls st)) (check_url p st))
                   else None)\<rparr>])"
  by (simp add: createOrUpdateFile_def check_url_def put_url_def Let_def
      split: fetch_result.splits sum.splits)

lemma createOrUpdateFile_throws:
  "btoa_utf8 env code = Inl e \<Longrightarrow>
   createOrUpdateFile env p code st
     = (Inl e, st\<lparr>viewer_calls := viewer_calls st @ [GetExisting (check_url p st)]\<rparr>)"
  by (simp add: createOrUpdateFile_def check_url_def Let_def)

lemma pushToGitHub_calls:
  "viewer_calls (pushToGitHub env p code st) =
     viewer_calls (snd (createOrUpdateFile env p code (snd (createBranchIfNotExists env p (pushing st)))))"
proof -
  obtain st1 where b: "createBranchIfNotExists env p (pushing st) = (Inr (), st1)"
    using createBranchIfNotExists_returns[of env p "pushing st"]
    by (cases "createBranchIfNotExists env p (pushing st)") auto
  then show ?thesis
    by (simp add: pushToGitHub_def pushing_def[symmetric] Let_def split: prod.splits sum.splits)
qed

lemma check_url_after_branch:
  "check_url p (snd (createBranchIfNotExists env p (pushing st))) = check_url p st"
  using createBranchIfNotExists_fields[of env p "pushing st"]
  by (simp add: check_url_def pushing_def)

text \<open>
  C6. \<open>createBranchIfNotExists\<close> never rejects, and each failure is written to the
  console once: a rejected read of the default branch and an unreadable body with their
  own error, a status outside 2xx with \<open>Failed to get default branch\<close>, a body without
  \<open>object\<close> with the TypeError, a rejected creation with its error and a refused one with
  \<open>Failed to create branch\<close>, unless the status is 422. A creation that succeeds or is
  answered with 422 writes nothing. Whatever happened, \<open>pushToGitHub\<close> goes on to
  \<open>createOrUpdateFile\<close>: the existence check is requested next, and the write of the
  file follows whenever the text can be encoded.
\<close>

theorem createBranchIfNotExists_never_fails:
  "fst (createBranchIfNotExists env p st) = Inr () \<and>
   (fetch_ref env (length (viewer_calls st)) (ref_url p) = Rejected e \<longrightarrow>
      snd (createBranchIfNotExists env p st) =
        st\<lparr>viewer_calls := viewer_calls st @ [GetRef (ref_url p)],
           console_errors := console_errors st @ [e]\<rparr>) \<and>
   (fetch_ref env (length (viewer_calls st)) (ref_url p) = Response False s b \<longrightarrow>
      snd (createBranchIfNotExists env p st) =
        st\<lparr>viewer_calls := viewer_calls st @ [GetRef (ref_url p)],
           console_errors := console_errors st @ [JsError ''Failed to get default branch'']\<rparr>) \<and>
   (fetch_ref env (length (viewer_calls st)) (ref_url p) = Response True s (Inl e) \<longrightarrow>
      snd (createBranchIfNotExists env p st) =
        st\<lparr>viewer_calls := viewer_calls st @ [GetRef (ref_url p)],
           console_errors := console_errors st @ [e]\<rparr>) \<and>
   (fetch_ref env (length (viewer_calls st)) (ref_url p) = Response True s (Inr (RefJson None)) \<longrightarrow>
      snd (createBranchIfNotExists env p st) =
        st\<lparr>viewer_calls := viewer_calls st @ [GetRef (ref_url p)],
           console_errors :=
             console_errors st @ [JsError ''Cannot read properties of undefined'']\<rparr>) \<and>
   (fetch_ref env (length (viewer_calls st)) (ref_url p)
      = Response True s (Inr (RefJson (Some tip))) \<longrightarrow>
      (fetch_create_ref env (Suc (length (viewer_calls st))) (refs_url p)
         \<lparr>ref = ''refs/heads/'' @ branchName st, sha = tip\<rparr> = Rejected e \<longrightarrow>
         snd (createBranchIfNotExists env p st) =
           st\<lparr>viewer_calls := viewer_calls st @ [GetRef (ref_url p),
                 PostRefs (refs_url p) \<lparr>ref = ''refs/heads/'' @ branchName st, sha = tip\<rparr>],
              console_errors := console_errors st @ [e]\<rparr>) \<and>
      (fetch_create_ref env (Suc (length (viewer_calls st))) (refs_url p)
         \<lparr>ref = ''refs/heads/'' @ branchName st, sha = tip\<rparr> = Response False cs cb \<and>
       cs \<noteq> 422 \<longrightarrow>
         snd (createBranchIfNotExists env p st) =
           st\<lparr>viewer_calls := viewer_calls st @ [GetRef (ref_url p),
                 PostRefs (refs_url p) \<lparr>ref = ''refs/heads/'' @ branchName st, sha = tip\<rparr>],
              console_errors := console_errors st @ [JsError ''Failed to create branch'']\<rparr>) \<and>
      (fetch_create_ref env (Suc (length (viewer_calls st))) (refs_url p)
         \<lparr>ref = ''refs/heads/'' @ branchName st, sha = tip\<rparr> = Response cok cs cb \<and>
       (cok \<or> cs = 422) \<longrightarrow>
         snd (createBranchIfNotExists env p st) =
           st\<lparr>viewer_calls := viewer_calls st @ [GetRef (ref_url p),
                 PostRefs (refs_url p)
                   \<lparr>ref = ''refs/heads/'' @ branchName st, sha = tip\<rparr>]\<rparr>)) \<and>
   (\<exists>rest. viewer_calls (pushToGitHub env p code st) =
      viewer_calls (snd (createBranchIfNotExists env p (pushing st)))
        @ GetExisting (check_url p st) # rest) \<and>
   (btoa_utf8 env code = Inr c \<longrightarrow>
      (\<exists>body. sent_body (viewer_calls (pushToGitHub env p code st)) = Some body))"
proof (intro conjI impI)
  show "fst (createBranchIfNotExists env p st) = Inr ()" by (rule createBranchIfNotExists_returns)
next
  show "\<exists>rest. viewer_calls (pushToGitHub env p code st) =
      viewer_calls (snd (createBranchIfNotExists env p (pushing st)))
        @ GetExisting (check_url p st) # rest"
    by (simp add: pushToGitHub_calls createOrUpdateFile_calls check_url_after_branch)
next
  assume "btoa_utf8 env code = Inr c"
  then show "\<exists>body. sent_body (viewer_calls (pushToGitHub env p code st)) = Some body"
    by (simp add: pushToGitHub_calls createOrUpdateFile_calls sent_body_def)
qed (simp_all add: createBranchIfNotExists_def create_branch_try_cases)

theorem createBranchIfNotExists_never_fails_witness:
  "fst (createBranchIfNotExists branch_exists_env example_props viewer_start) = Inr () \<and>
   console_errors (snd (createBranchIfNotExists branch_exists_env example_props viewer_start))
     = [] \<and>
   console_errors (snd (createBranchIfNotExists no_default_branch_env example_props viewer_start))
     = [JsError ''Failed to get default branch''] \<and>
   console_errors (snd (createBranchIfNotExists refused_creation_env example_props viewer_start))
     = [JsError ''Failed to create branch''] \<and>
   (\<exists>body. sent_body (viewer_calls
      (pushToGitHub no_default_branch_env example_props ''// tests'' viewer_start)) = Some body)"
proof -
  have 1: "fetch_ref branch_exists_env (length (viewer_calls viewer_start)) (ref_url example_props)
            = Response True 200 (Inr (RefJson (Some ''abc123'')))"
    by (simp add: branch_exists_env_def)
  have 2: "fetch_create_ref branch_exists_env (Suc (length (viewer_calls viewer_start)))
             (refs_url example_props)
             \<lparr>ref = ''refs/heads/'' @ branchName viewer_start, sha = ''abc123''\<rparr>
            = Response False 422 (Inr ()) \<and> (False \<or> (422::nat) = 422)"
    by (simp add: branch_exists_env_def)
  have 3: "fetch_ref no_default_branch_env (length (viewer_calls viewer_start))
             (ref_url example_props) = Response False 404 (Inr (RefJson None))"
    by (simp add: no_default_branch_env_def branch_exists_env_def)
  have 4: "fetch_ref refused_creation_env (length (viewer_calls viewer_start))
             (ref_url example_props) = Response True 200 (Inr (RefJson (Some ''abc123'')))"
    by (simp add: refused_creation_env_def branch_exists_env_def)
  have 5: "fetch_create_ref refused_creation_env (Suc (length (viewer_calls viewer_start)))
             (refs_url example_props)
             \<lparr>ref = ''refs/heads/'' @ branchName viewer_start, sha = ''abc123''\<rparr>
            = Response False 403 (Inr ()) \<and> (403::nat) \<noteq> 422"
    by (simp add: refused_creation_env_def branch_exists_env_def)
  have 6: "btoa_utf8 no_default_branch_env ''// tests'' = Inr ''// tests''"
    by (simp add: no_default_branch_env_def branch_exists_env_def)
  have c: "console_errors viewer_start = []" by (simp add: viewer_start_def)
  note A = createBranchIfNotExists_never_fails [of branch_exists_env example_props viewer_start
      _ 200 _ "''abc123''" 422 "Inr ()" False]
  note B = createBranchIfNotExists_never_fails [of no_default_branch_env example_props viewer_start
      _ 404 "Inr (RefJson None)" _ _ _ _ "''// tests''" "''// tests''"]
  note C = createBranchIfNotExists_never_fails [of refused_creation_env example_props viewer_start
      _ 200 _ "''abc123''" 403 "Inr ()"]
  from A 1 2 have a: "snd (createBranchIfNotExists branch_exists_env example_props viewer_start) =
      viewer_start\<lparr>viewer_calls := viewer_calls viewer_start @ [GetRef (ref_url example_props),
         PostRefs (refs_url example_props)
           \<lparr>ref = ''refs/heads/'' @ branchName viewer_start, sha = ''abc123''\<rparr>]\<rparr>"
    by blast
  from B 3 have b: "snd (createBranchIfNotExists no_default_branch_env example_props viewer_start) =
      viewer_start\<lparr>viewer_calls := viewer_calls viewer_start @ [GetRef (ref_url example_props)],
         console_errors := console_errors viewer_start @ [JsError ''Failed to get default branch'']\<rparr>"
    by blast
  from C 4 5 have d: "snd (createBranchIfNotExists refused_creation_env example_props viewer_start) =
      viewer_start\<lparr>viewer_calls := viewer_calls viewer_start @ [GetRef (ref_url example_props),
         PostRefs (refs_url example_props)
           \<lparr>ref = ''refs/heads/'' @ branchName viewer_start, sha = ''abc123''\<rparr>],
         console_errors := console_errors viewer_start @ [JsError ''Failed to create branch'']\<rparr>"
    by blast
  from B 6 have e: "\<exists>body. sent_body (viewer_calls
      (pushToGitHub no_default_branch_env example_props ''// tests'' viewer_start)) = Some body"
    by blast
  from A have f: "fst (createBranchIfNotExists branch_exists_env example_props viewer_start) = Inr ()"
    by blast
  from a b d e f show ?thesis by (simp add: c)
qed

subsection \<open>Writing the file\<close>

text \<open>
  C7. When the text can be encoded, \<open>createOrUpdateFile\<close> requests the existence check
  and then the write, whose body has the commit message, the encoded text, the branch,
  and the property \<open>sha\<close> with the marker of the check when the check found a file, and no
  such property when it found none. When the encoding throws, the function rejects with
  that error after the existence check and requests no write.
\<close>

theorem createOrUpdateFile_sha:
  "(btoa_utf8 env code = Inr c \<and>
    found_existing (fetch_existing env (length (viewer_calls st)) (check_url p st)) m \<longrightarrow>
      viewer_calls (snd (createOrUpdateFile env p code st)) =
        viewer_calls st @ [GetExisting (check_url p st),
          PutContents (put_url p st)
            \<lparr>body_message = commitMessage st, body_content = c, body_branch = branchName st,
             body_sha = Some m\<rparr>]) \<and>
   (btoa_utf8 env code = Inr c \<and>
    (\<forall>m. \<not> found_existing (fetch_existing env (length (viewer_calls st)) (check_url p st)) m) \<longrightarrow>
      viewer_calls (snd (createOrUpdateFile env p code st)) =
        viewer_calls st @ [GetExisting (check_url p st),
          PutContents (put_url p st)
            \<lparr>body_message = commitMessage st, body_content = c, body_branch = branchName st,
             body_sha = None\<rparr>]) \<and>
   (btoa_utf8 env code = Inl e \<longrightarrow>
      createOrUpdateFile env p code st =
        (Inl e, st\<lparr>viewer_calls := viewer_calls st @ [GetExisting (check_url p st)]\<rparr>))"
proof (intro conjI impI)
  assume a: "btoa_utf8 env code = Inr c \<and>
    found_existing (fetch_existing env (length (viewer_calls st)) (check_url p st)) m"
  then have "existingFileSha (fetch_existing env (length (viewer_calls st)) (check_url p st)) = Some m"
    and "m \<noteq> []"
    by (auto simp: found_existing_def existingFileSha_def split: fetch_result.splits)
  moreover from a have "btoa_utf8 env code = Inr c" by blast
  ultimately show "viewer_calls (snd (createOrUpdateFile env p code st)) =
        viewer_calls st @ [GetExisting (check_url p st),
          PutContents (put_url p st)
            \<lparr>body_message = commitMessage st, body_content = c, body_branch = branchName st,
             body_sha = Some m\<rparr>]"
    by (simp add: createOrUpdateFile_calls truthy_def)
next
  assume a: "btoa_utf8 env code = Inr c \<and>
    (\<forall>m. \<not> found_existing (fetch_existing env (length (viewer_calls st)) (check_url p st)) m)"
  have "\<not> truthy (existingFileSha (fetch_existing env (length (viewer_calls st)) (check_url p st)))"
  proof
    assume "truthy (existingFileSha (fetch_existing env (length (viewer_calls st)) (check_url p st)))"
    then obtain m where "existingFileSha (fetch_existing env (length (viewer_calls st)) (check_url p st)) = Some m"
      "m \<noteq> []" by (auto simp: truthy_def split: option.splits)
    then have "found_existing (fetch_existing env (length (viewer_calls st)) (check_url p st)) m"
      by (auto simp: found_existing_def existingFileSha_def split: fetch_result.splits sum.splits if_splits)
         (metis file_json.collapse)
    with a show False by blast
  qed
  moreover from a have "btoa_utf8 env code = Inr c" by blast
  ultimately show "viewer_calls (snd (createOrUpdateFile env p code st)) =
        viewer_calls st @ [GetExisting (check_url p st),
          PutContents (put_url p st)
            \<lparr>body_message = commitMessage st, body_content = c, body_branch = branchName st,
             body_sha = None\<rparr>]"
    by (simp add: createOrUpdateFile_calls)
next
  assume "btoa_utf8 env code = Inl e"
  then show "createOrUpdateFile env p code st =
        (Inl e, st\<lparr>viewer_calls := viewer_calls st @ [GetExisting (check_url p st)]\<rparr>)"
    by (rule createOrUpdateFile_throws)
qed

theorem createOrUpdateFile_sha_witness:
  "viewer_calls (snd (createOrUpdateFile branch_exists_env example_props ''// tests'' viewer_start))
     = [GetExisting (check_url example_props viewer_start),
        PutContents (put_url example_props viewer_start)
          \<lparr>body_message = ''Add generated test cases by Workik AI'', body_content = ''// tests'',
           body_branch = ''workik-test-cases'', body_sha = Some ''f00d''\<rparr>] \<and>
   viewer_calls (snd (createOrUpdateFile new_file_env example_props ''// tests'' viewer_start))
     = [GetExisting (check_url example_props viewer_start),
        PutContents (put_url example_props viewer_start)
          \<lparr>body_message = ''Add generated test cases by Workik AI'', body_content = ''// tests'',
           body_branch = ''workik-test-cases'', body_sha = None\<rparr>] \<and>
   createOrUpdateFile malformed_text_env example_props ''// tests'' viewer_start
     = (Inl (JsError ''URI malformed''),
        viewer_start\<lparr>viewer_calls := [GetExisting (check_url example_props viewer_start)]\<rparr>)"
proof -
  have 1: "btoa_utf8 branch_exists_env ''// tests'' = Inr ''// tests'' \<and>
           found_existing (fetch_existing branch_exists_env (length (viewer_calls viewer_start))
             (check_url example_props viewer_start)) ''f00d''"
    by (simp add: found_existing_def branch_exists_env_def)
  have 2: "btoa_utf8 new_file_env ''// tests'' = Inr ''// tests'' \<and>
           (\<forall>m. \<not> found_existing (fetch_existing new_file_env (length (viewer_calls viewer_start))
             (check_url example_props viewer_start)) m)"
    by (simp add: found_existing_def new_file_env_def branch_exists_env_def)
  have 3: "btoa_utf8 malformed_text_env ''// tests'' = Inl (JsError ''URI malformed'')"
    by (simp add: malformed_text_env_def branch_exists_env_def)
  have v: "viewer_calls viewer_start = []" "commitMessage viewer_start = ''Add generated test cases by Workik AI''"
    "branchName viewer_start = ''workik-test-cases''"
    by (simp_all add: viewer_start_def)
  from 1 createOrUpdateFile_sha [of branch_exists_env "''// tests''" "''// tests''" viewer_start
      example_props "''f00d''", THEN conjunct1]
  have a: "viewer_calls (snd (createOrUpdateFile branch_exists_env example_props ''// tests'' viewer_start))
     = viewer_calls viewer_start @ [GetExisting (check_url example_props viewer_start),
        PutContents (put_url example_props viewer_start)
          \<lparr>body_message = commitMessage viewer_start, body_content = ''// tests'',
           body_branch = branchName viewer_start, body_sha = Some ''f00d''\<rparr>]"
    by blast
  from 2 createOrUpdateFile_sha [of new_file_env "''// tests''" "''// tests''" viewer_start
      example_props, THEN conjunct2, THEN conjunct1]
  have b: "viewer_calls (snd (createOrUpdateFile new_file_env example_props ''// tests'' viewer_start))
     = viewer_calls viewer_start @ [GetExisting (check_url example_props viewer_start),
        PutContents (put_url example_props viewer_start)
          \<lparr>body_message = commitMessage viewer_start, body_content = ''// tests'',
           body_branch = branchName viewer_start, body_sha = None\<rparr>]"
    by blast
  from 3 createOrUpdateFile_sha [of malformed_text_env "''// tests''" _ viewer_start
      example_props _ "JsError ''URI malformed''", THEN conjunct2, THEN conjunct2]
  have c: "createOrUpdateFile malformed_text_env example_props ''// tests'' viewer_start
     = (Inl (JsError ''URI malformed''),
        viewer_start\<lparr>viewer_calls := viewer_calls viewer_start
           @ [GetExisting (check_url example_props viewer_start)]\<rparr>)"
    by blast
  from a b c show ?thesis unfolding v by simp
qed

end
